theory Spec2Isabelle
  imports Complex_Main "HOL-Library.List_Lexorder" "HOL-Library.Char_ord"
begin

section \<open>JavaScript values used by the handlers\<close>

text \<open>
  Strings are lists of 8-bit characters. Numbers that the code only compares or subtracts
  are rationals (every finite double is one, and the sign of a difference of two finite
  doubles is the sign of the exact difference); numbers that come out of \<open>parseInt\<close> or
  \<open>getFullYear\<close> are \<open>int option\<close>, with \<open>None\<close> for \<open>NaN\<close>. A field that may be
  missing, \<open>null\<close> or \<open>undefined\<close> is an \<open>option\<close>.
\<close>

datatype js_error =
    AppError string nat   \<comment> \<open>\<open>new AppError(message, statusCode)\<close>\<close>
  | Error string          \<comment> \<open>\<open>new Error(message)\<close>\<close>
  | TypeError string      \<comment> \<open>raised by the runtime, e.g. on a call of \<open>undefined\<close>\<close>

definition isWhiteSpace :: "char \<Rightarrow> bool" where
  "isWhiteSpace c = (of_char c \<in> {9, 10, 11, 12, 13, 32, 160 :: nat})"

definition trim :: "string \<Rightarrow> string" where
  "trim s = rev (dropWhile isWhiteSpace (rev (dropWhile isWhiteSpace s)))"

definition digitValue :: "char \<Rightarrow> nat option" where
  "digitValue c =
     (let n = (of_char c :: nat) in
      if 48 \<le> n \<and> n \<le> 57 then Some (n - 48)
      else if 97 \<le> n \<and> n \<le> 122 then Some (n - 87)
      else if 65 \<le> n \<and> n \<le> 90 then Some (n - 55)
      else None)"

fun radixDigits :: "nat \<Rightarrow> string \<Rightarrow> nat list" where
  "radixDigits R [] = []"
| "radixDigits R (c # cs) =
     (case digitValue c of
        Some d \<Rightarrow> (if d < R then d # radixDigits R cs else [])
      | None \<Rightarrow> [])"

definition mathInt :: "nat \<Rightarrow> nat list \<Rightarrow> nat" where
  "mathInt R ds = foldl (\<lambda>acc d. acc * R + d) 0 ds"

text \<open>
  \<open>parseInt(string)\<close> with no radix, as ECMAScript defines it: leading white space is
  skipped, a sign is read, a \<open>0x\<close> prefix selects radix 16, the longest run of digits is
  the value, and no digit at all gives \<open>NaN\<close>.
\<close>

definition parseInt :: "string \<Rightarrow> int option" where
  "parseInt inputString =
     (let S = dropWhile isWhiteSpace inputString;
          sign = (if S \<noteq> [] \<and> hd S = CHR ''-'' then - 1 else 1 :: int);
          S1 = (if S \<noteq> [] \<and> (hd S = CHR ''+'' \<or> hd S = CHR ''-'') then tl S else S);
          hex = (2 \<le> length S1 \<and> (take 2 S1 = ''0x'' \<or> take 2 S1 = ''0X''));
          R = (if hex then 16 else 10);
          Z = radixDigits R (if hex then drop 2 S1 else S1)
      in if Z = [] then None else Some (sign * int (mathInt R Z)))"

text \<open>A query parameter with a numeric default: \<open>const { page = 1 } = req.query\<close>
  followed by \<open>parseInt(page)\<close>.\<close>

definition parseIntParam :: "string option \<Rightarrow> int \<Rightarrow> int option" where
  "parseIntParam p dflt = (case p of None \<Rightarrow> Some dflt | Some s \<Rightarrow> parseInt s)"

text \<open>\<open>a || b\<close> on strings and on numbers: the empty string, \<open>0\<close>, \<open>NaN\<close>, \<open>null\<close> and
  \<open>undefined\<close> are falsy.\<close>

definition str_or :: "string option \<Rightarrow> string option \<Rightarrow> string option" where
  "str_or a b = (case a of Some s \<Rightarrow> (if s = [] then b else Some s) | None \<Rightarrow> b)"

text \<open>\<open>a || ''\<close>.\<close>

definition str_or_empty :: "string option \<Rightarrow> string" where
  "str_or_empty a = (case a of Some s \<Rightarrow> s | None \<Rightarrow> [])"

definition num_or :: "rat option \<Rightarrow> rat \<Rightarrow> rat" where
  "num_or a b = (case a of Some r \<Rightarrow> (if r = 0 then b else r) | None \<Rightarrow> b)"

definition int_or :: "int option \<Rightarrow> int \<Rightarrow> int" where
  "int_or a b = (case a of Some r \<Rightarrow> (if r = 0 then b else r) | None \<Rightarrow> b)"

text \<open>\<open>a === b\<close> on numbers: \<open>NaN\<close> equals nothing, itself included.\<close>

definition strict_eq :: "int option \<Rightarrow> int option \<Rightarrow> bool" where
  "strict_eq a b = (case (a, b) of (Some x, Some y) \<Rightarrow> x = y | _ \<Rightarrow> False)"

text \<open>
  Two functions of the JavaScript runtime depend on the host's locale and time zone and
  are parameters of the model: \<open>String.prototype.localeCompare\<close> and
  \<open>new Date(s).getFullYear()\<close> (\<open>None\<close> is \<open>NaN\<close>, the year of an invalid date).
\<close>

record runtime =
  localeCompare :: "string \<Rightarrow> string \<Rightarrow> int"
  getFullYear :: "string \<Rightarrow> int option"

text \<open>
  \<open>Array.prototype.sort(compareFn)\<close> is a stable sort: with a consistent comparator its
  result is the one stable insertion sort gives, which is the model.
\<close>

fun js_insert :: "('a \<Rightarrow> 'a \<Rightarrow> rat) \<Rightarrow> 'a \<Rightarrow> 'a list \<Rightarrow> 'a list" where
  "js_insert cmp x [] = [x]"
| "js_insert cmp x (y # ys) =
     (if cmp x y \<le> 0 then x # y # ys else y # js_insert cmp x ys)"

fun js_sort :: "('a \<Rightarrow> 'a \<Rightarrow> rat) \<Rightarrow> 'a list \<Rightarrow> 'a list" where
  "js_sort cmp [] = []"
| "js_sort cmp (x # xs) = js_insert cmp x (js_sort cmp xs)"


section \<open>Aggregated search: \<open>GET /api/search\<close> (server/routes/search.js)\<close>

text \<open>
  Field names carry the prefix of their record: \<open>ti_\<close> an element of the metadata
  provider's \<open>results\<close>, \<open>mi_\<close> a transformed movie or TV item, \<open>rs_\<close> a
  \<open>RadioStation\<close> document of the store, \<open>ri_\<close> a radio item of the response.
\<close>

record tmdb_item =
  ti_id :: int
  ti_title :: "string option"
  ti_name :: "string option"
  ti_poster_path :: "string option"
  ti_backdrop_path :: "string option"
  ti_media_type :: "string option"
  ti_vote_average :: "rat option"
  ti_release_date :: "string option"
  ti_first_air_date :: "string option"
  ti_overview :: "string option"
  ti_popularity :: "rat option"

record tmdb_response =
  tr_results :: "tmdb_item list option"
  tr_total_results :: "int option"

record media_item =
  mi_id :: int
  mi_title :: "string option"
  mi_poster :: "string option"
  mi_backdrop :: "string option"
  mi_type :: "string option"
  mi_rating :: "rat option"
  mi_year :: "int option"
  mi_overview :: "string option"
  mi_popularity :: "rat option"

record radio_station_doc =
  rs_id :: string
  rs_name :: "string option"
  rs_logo :: "string option"
  rs_genre :: "string list"
  rs_listeners :: "rat option"
  rs_country :: "string option"
  rs_description :: "string option"

record radio_item =
  ri_id :: string
  ri_title :: "string option"
  ri_poster :: "string option"
  ri_genre :: "string list"
  ri_listeners :: "rat option"
  ri_country :: "string option"
  ri_description :: "string option"

datatype result_item = Media media_item | Radio radio_item

fun rating :: "result_item \<Rightarrow> rat option" where
  "rating (Media m) = mi_rating m"
| "rating (Radio r) = None"

fun year_of :: "result_item \<Rightarrow> int option" where
  "year_of (Media m) = mi_year m"
| "year_of (Radio r) = None"

fun title_of :: "result_item \<Rightarrow> string option" where
  "title_of (Media m) = mi_title m"
| "title_of (Radio r) = ri_title r"

fun popularity_of :: "result_item \<Rightarrow> rat option" where
  "popularity_of (Media m) = mi_popularity m"
| "popularity_of (Radio r) = None"

fun listeners_of :: "result_item \<Rightarrow> rat option" where
  "listeners_of (Media m) = None"
| "listeners_of (Radio r) = ri_listeners r"

text \<open>\<open>tmdbService.getImageURL(path, size = 'w500')\<close>.\<close>

definition imageBaseURL :: string where
  "imageBaseURL = ''https://image.tmdb.org/t/p''"

definition getImageURL :: "string option \<Rightarrow> string \<Rightarrow> string option" where
  "getImageURL path sz =
     (case path of
        None \<Rightarrow> None
      | Some p \<Rightarrow> (if p = [] then None else Some (imageBaseURL @ ''/'' @ sz @ p)))"

text \<open>The request's query string. A parameter that is absent takes the default of the
  destructuring pattern.\<close>

record search_query =
  q :: "string option"
  qtype :: "string option"    \<comment> \<open>\<open>type = 'all'\<close>\<close>
  page :: "string option"     \<comment> \<open>\<open>page = 1\<close>\<close>
  limit :: "string option"    \<comment> \<open>\<open>limit = 20\<close>\<close>
  genre :: "string option"
  year :: "string option"
  sortBy :: "string option"   \<comment> \<open>\<open>sortBy = 'popularity'\<close>\<close>

definition typeParam :: "search_query \<Rightarrow> string" where
  "typeParam rq = (case qtype rq of None \<Rightarrow> ''all'' | Some t \<Rightarrow> t)"

definition sortByParam :: "search_query \<Rightarrow> string" where
  "sortByParam rq = (case sortBy rq of None \<Rightarrow> ''popularity'' | Some sb \<Rightarrow> sb)"

text \<open>
  The collaborators of the handler. Each is a function of the arguments the handler
  passes; \<open>Inl\<close> is a rejected promise. Every call the handler makes is recorded, in
  order, in a list of \<open>call\<close>s.
\<close>

datatype call =
    TmdbSearch string "string option"
  | RadioFind string "string option" "int option" "int option"
  | RadioCount string "string option"

record search_env =
  tmdbSearch :: "string \<Rightarrow> string option \<Rightarrow> js_error + tmdb_response"
  radioFind :: "string \<Rightarrow> string option \<Rightarrow> int option \<Rightarrow> int option
                  \<Rightarrow> js_error + radio_station_doc list"
  radioCount :: "string \<Rightarrow> string option \<Rightarrow> js_error + int"

record search_results =
  movies :: "media_item list"
  tv :: "media_item list"
  radio :: "radio_item list"
  total_count :: int          \<comment> \<open>\<open>results.total\<close>\<close>

record breakdown =
  bd_movies :: nat
  bd_tv :: nat
  bd_radio :: nat
  bd_total :: int

record pagination =
  currentPage :: "int option"
  pg_limit :: "int option"
  hasMore :: bool

record search_data =
  sd_query :: string
  sd_results :: "result_item list"
  sd_breakdown :: breakdown
  sd_pagination :: pagination

datatype search_response =
    Status400 string          \<comment> \<open>\<open>res.status(400).json({success: false, message})\<close>\<close>
  | Success search_data       \<comment> \<open>\<open>res.json({success: true, data})\<close>\<close>

definition transformItem :: "runtime \<Rightarrow> tmdb_item \<Rightarrow> media_item" where
  "transformItem rt item =
     \<lparr> mi_id = ti_id item,
       mi_title = str_or (ti_title item) (ti_name item),
       mi_poster = getImageURL (ti_poster_path item) ''w500'',
       mi_backdrop = getImageURL (ti_backdrop_path item) ''w1280'',
       mi_type = ti_media_type item,
       mi_rating = ti_vote_average item,
       mi_year =
         (case str_or (ti_release_date item) (ti_first_air_date item) of
            Some d \<Rightarrow> getFullYear rt d
          | None \<Rightarrow> None),
       mi_overview = ti_overview item,
       mi_popularity = ti_popularity item \<rparr>"

text \<open>The body of \<open>tmdbResults.results.forEach\<close>: one item is pushed to \<open>movies\<close>, to
  \<open>tv\<close>, or dropped.\<close>

definition pushItem :: "runtime \<Rightarrow> string \<Rightarrow> search_results \<Rightarrow> tmdb_item \<Rightarrow> search_results" where
  "pushItem rt ty res item =
     (if ti_media_type item = Some ''movie'' \<and> (ty = ''all'' \<or> ty = ''movie'')
        then res\<lparr>movies := movies res @ [transformItem rt item]\<rparr>
      else if ti_media_type item = Some ''tv'' \<and> (ty = ''all'' \<or> ty = ''tv'')
        then res\<lparr>tv := tv res @ [transformItem rt item]\<rparr>
      else res)"

text \<open>
  Lines 39 to 70. The inner \<open>try\<close> catches a rejected \<open>tmdbService.search\<close> and the
  \<open>TypeError\<close> of \<open>forEach\<close> on a missing \<open>results\<close>; in both cases nothing has been
  pushed and \<open>results.total\<close> is unchanged.
\<close>

definition tmdb_branch ::
  "runtime \<Rightarrow> search_env \<Rightarrow> string \<Rightarrow> string \<Rightarrow> string option \<Rightarrow> search_results
     \<Rightarrow> search_results \<times> call list" where
  "tmdb_branch rt env query ty pg res =
     (if ty = ''all'' \<or> ty = ''movie'' \<or> ty = ''tv'' then
        (case tmdbSearch env query pg of
           Inl tmdbError \<Rightarrow> (res, [TmdbSearch query pg])
         | Inr tmdbResults \<Rightarrow>
             (case tr_results tmdbResults of
                None \<Rightarrow> (res, [TmdbSearch query pg])
              | Some items \<Rightarrow>
                  (let res1 = foldl (pushItem rt ty) res items
                   in (res1\<lparr>total_count := total_count res1
                               + int_or (tr_total_results tmdbResults) 0\<rparr>,
                       [TmdbSearch query pg]))))
      else (res, []))"

definition radioItem :: "radio_station_doc \<Rightarrow> radio_item" where
  "radioItem station =
     \<lparr> ri_id = rs_id station,
       ri_title = rs_name station,
       ri_poster = rs_logo station,
       ri_genre = rs_genre station,
       ri_listeners = rs_listeners station,
       ri_country = rs_country station,
       ri_description = rs_description station \<rparr>"

definition js_sub :: "int option \<Rightarrow> int option \<Rightarrow> int option" where
  "js_sub a b = (case (a, b) of (Some x, Some y) \<Rightarrow> Some (x - y) | _ \<Rightarrow> None)"

definition js_mul :: "int option \<Rightarrow> int option \<Rightarrow> int option" where
  "js_mul a b = (case (a, b) of (Some x, Some y) \<Rightarrow> Some (x * y) | _ \<Rightarrow> None)"

text \<open>
  Lines 73 to 102. The store's \<open>find\<close> is asked for the page
  \<open>limit(parseInt(limit)).skip((parseInt(page) - 1) * parseInt(limit))\<close> of the matching
  stations, and \<open>countDocuments\<close> for their number. Neither \<open>await\<close> has a \<open>try\<close> of
  its own: a rejection leaves the branch.
\<close>

definition radio_branch ::
  "search_env \<Rightarrow> string \<Rightarrow> string \<Rightarrow> search_query \<Rightarrow> search_results
     \<Rightarrow> (js_error + search_results) \<times> call list" where
  "radio_branch env query ty rq res =
     (if ty = ''all'' \<or> ty = ''radio'' then
        (let g = str_or (genre rq) None;
             lmt = parseIntParam (limit rq) 20;
             skip = js_mul (js_sub (parseIntParam (page rq) 1) (Some 1)) lmt
         in case radioFind env query g lmt skip of
              Inl e \<Rightarrow> (Inl e, [RadioFind query g lmt skip])
            | Inr radioStations \<Rightarrow>
                (case radioCount env query g of
                   Inl e \<Rightarrow> (Inl e, [RadioFind query g lmt skip, RadioCount query g])
                 | Inr cnt \<Rightarrow>
                     (Inr (res\<lparr>radio := map radioItem radioStations,
                               total_count := total_count res + cnt\<rparr>),
                      [RadioFind query g lmt skip, RadioCount query g])))
      else (Inr res, []))"

text \<open>Lines 105 to 108: the optional \<open>year\<close> filter.\<close>

definition year_filter :: "string option \<Rightarrow> search_results \<Rightarrow> search_results" where
  "year_filter y res =
     (case str_or y None of
        None \<Rightarrow> res
      | Some ys \<Rightarrow>
          res\<lparr>movies := filter (\<lambda>movie. strict_eq (mi_year movie) (parseInt ys)) (movies res),
              tv := filter (\<lambda>show. strict_eq (mi_year show) (parseInt ys)) (tv res)\<rparr>)"

text \<open>Lines 111 to 123: the comparator. The keys it compares are \<open>a.rating || 0\<close>,
  \<open>a.year || 0\<close>, \<open>a.title || ''\<close> and \<open>a.popularity || a.listeners || 0\<close>.\<close>

definition ratingKey :: "result_item \<Rightarrow> rat" where
  "ratingKey a = num_or (rating a) 0"

definition yearKey :: "result_item \<Rightarrow> int" where
  "yearKey a = int_or (year_of a) 0"

definition titleKey :: "result_item \<Rightarrow> string" where
  "titleKey a = str_or_empty (title_of a)"

definition popularityKey :: "result_item \<Rightarrow> rat" where
  "popularityKey a = num_or (popularity_of a) (num_or (listeners_of a) 0)"

definition sortFunction :: "runtime \<Rightarrow> string \<Rightarrow> result_item \<Rightarrow> result_item \<Rightarrow> rat" where
  "sortFunction rt sb a b =
     (if sb = ''rating'' then ratingKey b - ratingKey a
      else if sb = ''year'' then of_int (yearKey b - yearKey a)
      else if sb = ''title'' then of_int (localeCompare rt (titleKey a) (titleKey b))
      else popularityKey b - popularityKey a)"

definition sort_media :: "runtime \<Rightarrow> string \<Rightarrow> media_item list \<Rightarrow> media_item list" where
  "sort_media rt sb ms = js_sort (\<lambda>a b. sortFunction rt sb (Media a) (Media b)) ms"

text \<open>Lines 125 to 138.\<close>

definition allResults :: "runtime \<Rightarrow> string \<Rightarrow> string \<Rightarrow> search_results \<Rightarrow> result_item list" where
  "allResults rt sb ty res =
     (if ty = ''all'' then
        js_sort (sortFunction rt sb)
          (map Media (movies res) @ map Media (tv res) @ map Radio (radio res))
      else if ty = ''movie'' then map Media (movies res)
      else if ty = ''tv'' then map Media (tv res)
      else if ty = ''radio'' then map Radio (radio res)
      else [])"

text \<open>Lines 140 to 157: the response.\<close>

definition respond :: "runtime \<Rightarrow> string \<Rightarrow> string \<Rightarrow> search_query \<Rightarrow> search_results \<Rightarrow> search_data" where
  "respond rt query ty rq res0 =
     (let sb = sortByParam rq;
          res1 = year_filter (year rq) res0;
          res = res1\<lparr>movies := sort_media rt sb (movies res1), tv := sort_media rt sb (tv res1)\<rparr>;
          rs = allResults rt sb ty res
      in \<lparr> sd_query = query,
           sd_results = rs,
           sd_breakdown =
             \<lparr> bd_movies = length (movies res), bd_tv = length (tv res),
               bd_radio = length (radio res), bd_total = total_count res \<rparr>,
           sd_pagination =
             \<lparr> currentPage = parseIntParam (page rq) 1,
               pg_limit = parseIntParam (limit rq) 20,
               hasMore = strict_eq (Some (int (length rs))) (parseIntParam (limit rq) 20) \<rparr> \<rparr>)"

definition empty_results :: search_results where
  "empty_results = \<lparr> movies = [], tv = [], radio = [], total_count = 0 \<rparr>"

text \<open>
  The handler, lines 12 to 163. It returns what the client gets (\<open>Inl\<close> is the error
  handed to the error middleware by \<open>catchAsync\<close>) and the calls made.
\<close>

definition search_handler ::
  "runtime \<Rightarrow> search_env \<Rightarrow> search_query \<Rightarrow> (js_error + search_response) \<times> call list" where
  "search_handler rt env rq =
     (case str_or (q rq) None of
        None \<Rightarrow> (Inr (Status400 ''Search query must be at least 2 characters long''), [])
      | Some query \<Rightarrow>
          if length (trim query) < 2
          then (Inr (Status400 ''Search query must be at least 2 characters long''), [])
          else
            (let ty = typeParam rq;
                 (res1, calls1) = tmdb_branch rt env query ty (page rq) empty_results;
                 (r2, calls2) = radio_branch env query ty rq res1
             in case r2 of
                  Inl err \<Rightarrow> (Inl (AppError ''Search failed'' 500), calls1 @ calls2)
                | Inr res2 \<Rightarrow> (Inr (Success (respond rt query ty rq res2)), calls1 @ calls2)))"


text \<open>The data of a successful response, if the handler gave one.\<close>

definition successData :: "(js_error + search_response) \<times> call list \<Rightarrow> search_data option" where
  "successData r = (case fst r of Inr (Success d) \<Rightarrow> Some d | _ \<Rightarrow> None)"


section \<open>The metadata adapter's cache: \<open>TMDBService.getCachedOrFetch\<close>\<close>

text \<open>
  The adapter is the second module of src/unnamed/part_005, from line 348; line numbers
  are those of that file. \<open>this.cache\<close> is a \<open>Map\<close> from the cache key to \<open>{data, timestamp}\<close>, and
  \<open>this.cacheTimeout\<close> is five minutes in milliseconds. \<open>fetchFunction\<close> is any
  asynchronous computation: it acts on the world outside the adapter (type \<open>'w\<close>) and
  resolves (\<open>Inr\<close>) or rejects (\<open>Inl\<close>). \<open>now\<close> is \<open>Date.now()\<close> at the freshness check
  and \<open>now'\<close> is \<open>Date.now()\<close> when the fetched value is stored.
\<close>

record 'v cache_entry =
  data :: 'v
  timestamp :: int

type_synonym 'v tmdb_cache = "string \<rightharpoonup> 'v cache_entry"

definition cacheTimeout :: int where
  "cacheTimeout = 5 * 60 * 1000"

text \<open>The \<open>try\<close> block of \<open>getCachedOrFetch\<close>, lines 380 to 394; \<open>cached\<close> is the entry
  read before it.\<close>

definition tryFetch ::
  "'v tmdb_cache \<Rightarrow> int \<Rightarrow> string \<Rightarrow> ('w \<Rightarrow> (js_error + 'v) \<times> 'w)
     \<Rightarrow> 'v cache_entry option \<Rightarrow> 'w \<Rightarrow> (js_error + 'v) \<times> 'v tmdb_cache \<times> 'w" where
  "tryFetch cache now' cacheKey fetchFunction cached w =
     (case fetchFunction w of
        (Inr d, w') \<Rightarrow> (Inr d, cache(cacheKey \<mapsto> \<lparr>data = d, timestamp = now'\<rparr>), w')
      | (Inl err, w') \<Rightarrow>
          (case cached of
             Some e \<Rightarrow> (Inr (data e), cache, w')
           | None \<Rightarrow> (Inl err, cache, w')))"

definition getCachedOrFetch ::
  "'v tmdb_cache \<Rightarrow> int \<Rightarrow> int \<Rightarrow> string \<Rightarrow> ('w \<Rightarrow> (js_error + 'v) \<times> 'w) \<Rightarrow> 'w
     \<Rightarrow> (js_error + 'v) \<times> 'v tmdb_cache \<times> 'w" where
  "getCachedOrFetch cache now now' cacheKey fetchFunction w =
     (case cache cacheKey of
        Some cached \<Rightarrow>
          if now - timestamp cached < cacheTimeout then (Inr (data cached), cache, w)
          else tryFetch cache now' cacheKey fetchFunction (Some cached) w
      | None \<Rightarrow> tryFetch cache now' cacheKey fetchFunction None w)"


text \<open>
  The cached methods of the adapter, lines 466 to 507: \<open>search\<close>, \<open>getTrending\<close>,
  \<open>getPopularMovies\<close>, \<open>getPopularTVShows\<close> and \<open>getTopRatedMovies\<close>. Each builds its
  cache key and hands \<open>getCachedOrFetch\<close> the request to the provider; a page that is
  not given is 1, and \<open>search\<close> is called with \<open>includeAdult = false\<close>. \<open>makeRequest\<close>
  is the request of a method as a computation on the world.
\<close>

datatype tmdb_method =
    SearchMulti string "string option"
  | Trending string string "string option"
  | PopularMovies "string option"
  | PopularTVShows "string option"
  | TopRatedMovies "string option"

definition pageStr :: "string option \<Rightarrow> string" where
  "pageStr pg = (case pg of None \<Rightarrow> ''1'' | Some s \<Rightarrow> s)"

fun cacheKeyOf :: "tmdb_method \<Rightarrow> string" where
  "cacheKeyOf (SearchMulti query pg) = ''search_'' @ query @ ''_'' @ pageStr pg @ ''_false''"
| "cacheKeyOf (Trending mediaType timeWindow pg) =
     ''trending_'' @ mediaType @ ''_'' @ timeWindow @ ''_'' @ pageStr pg"
| "cacheKeyOf (PopularMovies pg) = ''popular_movies_'' @ pageStr pg"
| "cacheKeyOf (PopularTVShows pg) = ''popular_tv_'' @ pageStr pg"
| "cacheKeyOf (TopRatedMovies pg) = ''top_rated_movies_'' @ pageStr pg"

definition cachedMethod ::
  "'v tmdb_cache \<Rightarrow> int \<Rightarrow> int \<Rightarrow> tmdb_method \<Rightarrow> (tmdb_method \<Rightarrow> 'w \<Rightarrow> (js_error + 'v) \<times> 'w) \<Rightarrow> 'w
     \<Rightarrow> (js_error + 'v) \<times> 'v tmdb_cache \<times> 'w" where
  "cachedMethod cache now now' m makeRequest w =
     getCachedOrFetch cache now now' (cacheKeyOf m) (makeRequest m) w"


section \<open>The radio directory adapter: \<open>RadioBrowserService\<close>\<close>

text \<open>The first module of src/unnamed/part_005, lines 1 to 347.\<close>

subsection \<open>Strings and arrays\<close>

fun startsWith :: "string \<Rightarrow> string \<Rightarrow> bool" where
  "startsWith s [] = True"
| "startsWith [] (c # cs) = False"
| "startsWith (d # ds) (c # cs) = (d = c \<and> startsWith ds cs)"

text \<open>\<open>s.includes(sub)\<close>.\<close>

fun str_includes :: "string \<Rightarrow> string \<Rightarrow> bool" where
  "str_includes [] sub = (sub = [])"
| "str_includes (d # ds) sub = (startsWith (d # ds) sub \<or> str_includes ds sub)"

text \<open>\<open>xs.slice(0, end)\<close>: a negative \<open>end\<close> counts from the end of the array, \<open>NaN\<close>
  is 0.\<close>

definition slice0 :: "'a list \<Rightarrow> int option \<Rightarrow> 'a list" where
  "slice0 xs e =
     (case e of
        None \<Rightarrow> []
      | Some n \<Rightarrow> (if n < 0 then take (nat (int (length xs) + n)) xs else take (nat n) xs))"

text \<open>A number in a template literal: decimal digits, a leading \<open>-\<close> below zero, \<open>NaN\<close>
  (exact below \<open>10\<^sup>2\<^sup>1\<close>, where JavaScript turns to exponent notation).\<close>

definition digitChar :: "nat \<Rightarrow> char" where
  "digitChar d = ''0123456789'' ! d"

function digitsOf :: "nat \<Rightarrow> string" where
  "digitsOf n = (if n < 10 then [digitChar n] else digitsOf (n div 10) @ [digitChar (n mod 10)])"
  by pat_completeness auto
termination
  by (relation "measure id") auto

declare digitsOf.simps [simp del]

definition numToString :: "int option \<Rightarrow> string" where
  "numToString n =
     (case n of
        None \<Rightarrow> ''NaN''
      | Some i \<Rightarrow> (if i < 0 then CHR ''-'' # digitsOf (nat (- i)) else digitsOf (nat i)))"

text \<open>\<open>toUpperCase\<close> and \<open>toLowerCase\<close>, on the letters of ASCII.\<close>

definition upperChar :: "char \<Rightarrow> char" where
  "upperChar c =
     (let n = (of_char c :: nat) in if 97 \<le> n \<and> n \<le> 122 then char_of (n - 32) else c)"

definition lowerChar :: "char \<Rightarrow> char" where
  "lowerChar c =
     (let n = (of_char c :: nat) in if 65 \<le> n \<and> n \<le> 90 then char_of (n + 32) else c)"

definition toUpperCase :: "string \<Rightarrow> string" where
  "toUpperCase s = map upperChar s"

definition toLowerCase :: "string \<Rightarrow> string" where
  "toLowerCase s = map lowerChar s"

subsection \<open>The rate limiter\<close>

record rate_limiter =
  requests :: int
  lastReset :: int

definition maxRequests :: int where
  "maxRequests = 100"

definition resetInterval :: int where
  "resetInterval = 60000"

definition checkRateLimit :: "rate_limiter \<Rightarrow> int \<Rightarrow> (js_error + unit) \<times> rate_limiter" where
  "checkRateLimit rl now =
     (let rl1 = (if now - lastReset rl > resetInterval
                 then rl\<lparr>requests := 0, lastReset := now\<rparr> else rl)
      in if requests rl1 \<ge> maxRequests
         then (Inl (Error ''Rate limit exceeded. Please try again later.''), rl1)
         else (Inr (), rl1\<lparr>requests := requests rl1 + 1\<rparr>))"

subsection \<open>The cache\<close>

text \<open>
  \<open>new NodeCache({ stdTTL: 300 })\<close>. The package \<open>node-cache\<close> is a dependency of the
  repository; the model follows its documentation. An entry holds its value and the time
  \<open>t\<close> at which it expires (\<open>set\<close> computes it from the time to live, in seconds; 0 is
  never). \<open>get\<close> returns \<open>undefined\<close> for a key that is absent or has expired, and
  deletes an expired entry. The package also deletes expired entries from a timer
  (\<open>checkperiod\<close>), which is \<open>nc_sweep\<close>.
\<close>

record 'v nc_entry =
  nc_value :: 'v
  nc_expires :: int

type_synonym 'v node_cache = "string \<rightharpoonup> 'v nc_entry"

definition stdTTL :: int where
  "stdTTL = 300"

definition nc_expired :: "'v nc_entry \<Rightarrow> int \<Rightarrow> bool" where
  "nc_expired e now = (nc_expires e \<noteq> 0 \<and> nc_expires e < now)"

definition nc_get :: "'v node_cache \<Rightarrow> int \<Rightarrow> string \<Rightarrow> 'v option \<times> 'v node_cache" where
  "nc_get c now k =
     (case c k of
        None \<Rightarrow> (None, c)
      | Some e \<Rightarrow> (if nc_expired e now then (None, c(k := None)) else (Some (nc_value e), c)))"

definition nc_set :: "'v node_cache \<Rightarrow> int \<Rightarrow> string \<Rightarrow> 'v \<Rightarrow> int \<Rightarrow> 'v node_cache" where
  "nc_set c now k v ttl =
     c(k \<mapsto> \<lparr>nc_value = v, nc_expires = (if ttl = 0 then 0 else now + ttl * 1000)\<rparr>)"

definition nc_sweep :: "'v node_cache \<Rightarrow> int \<Rightarrow> 'v node_cache" where
  "nc_sweep c now =
     (\<lambda>k. case c k of None \<Rightarrow> None | Some e \<Rightarrow> (if nc_expired e now then None else Some e))"

definition flushAll :: "'v node_cache" where
  "flushAll = Map.empty"

subsection \<open>Stations\<close>

text \<open>A station as the directory returns it, with the fields the adapter reads, and the
  station the adapter hands out: the same fields (\<open>...station\<close>) and two more.\<close>

record station =
  stationuuid :: string
  st_name :: "string option"
  url_resolved :: "string option"
  bitrate :: "int option"

record quality_station = station +
  quality :: string
  streamUrl :: "string option"

text \<open>Lines 34 to 41.\<close>

definition validStation :: "station \<Rightarrow> bool" where
  "validStation st =
     (case url_resolved st of
        None \<Rightarrow> False
      | Some u \<Rightarrow> u \<noteq> [] \<and> trim u \<noteq> [] \<and> u \<noteq> ''null'' \<and> \<not> str_includes u ''null'')"

definition filterValidStations :: "station list \<Rightarrow> station list" where
  "filterValidStations stations = filter validStation stations"

text \<open>Lines 44 to 50. A comparison with a missing bitrate is false.\<close>

definition bitrate_gt :: "int option \<Rightarrow> int \<Rightarrow> bool" where
  "bitrate_gt b n = (case b of Some x \<Rightarrow> x > n | None \<Rightarrow> False)"

definition withQuality :: "station \<Rightarrow> quality_station" where
  "withQuality st =
     \<lparr> stationuuid = stationuuid st, st_name = st_name st,
       url_resolved = url_resolved st, bitrate = bitrate st,
       quality = (if bitrate_gt (bitrate st) 128 then ''high''
                  else if bitrate_gt (bitrate st) 64 then ''medium'' else ''low''),
       streamUrl = url_resolved st \<rparr>"

definition addStreamQuality :: "station list \<Rightarrow> quality_station list" where
  "addStreamQuality stations = map withQuality stations"


subsection \<open>The directory and the service's state\<close>

text \<open>
  The package \<open>radio-browser\<close> is the directory. Each of its functions is a function of
  the request the adapter builds, and \<open>Inl\<close> is a rejected promise.
\<close>

record rb_filter =
  f_countrycode :: "string option"
  f_tag :: "string option"
  f_stationuuid :: "string option"
  f_name :: "string option"
  f_order :: "string option"
  f_reverse :: bool
  f_limit :: "int option option"    \<comment> \<open>absent, or a number (\<open>Some None\<close> is \<open>NaN\<close>)\<close>
  f_hidebroken :: bool

record country_rec =
  country_name :: string
  country_stationcount :: int

record tag_rec =
  tag_name :: string
  stationcount :: int

record radio_browser =
  rb_getStations :: "rb_filter \<Rightarrow> js_error + station list"
  rb_searchStations :: "rb_filter \<Rightarrow> js_error + station list"
  rb_getCountries :: "js_error + country_rec list"
  rb_getTags :: "js_error + tag_rec list"
  rb_clickStation :: "string \<Rightarrow> js_error option"

text \<open>What the cache holds: whatever the methods of the service have stored.\<close>

datatype cache_value =
    Stations "quality_station list"
  | Details quality_station
  | Countries "country_rec list"
  | Genres "tag_rec list"

record radio_service =
  nodeCache :: "cache_value node_cache"
  rateLimiter :: rate_limiter

definition noFilter :: rb_filter where
  "noFilter =
     \<lparr> f_countrycode = None, f_tag = None, f_stationuuid = None, f_name = None,
       f_order = None, f_reverse = False, f_limit = None, f_hidebroken = False \<rparr>"

text \<open>\<open>{ order: 'clickcount', reverse: true, limit: limit * 2, hidebroken: true }\<close>.\<close>

definition byClicks :: "int option \<Rightarrow> rb_filter" where
  "byClicks lmt =
     noFilter\<lparr> f_order := Some ''clickcount'', f_reverse := True,
               f_limit := Some (js_mul lmt (Some 2)), f_hidebroken := True \<rparr>"

subsection \<open>The listing methods\<close>

text \<open>
  \<open>getPopularStations\<close>, \<open>getStationsByCountry\<close>, \<open>getStationsByGenre\<close> and
  \<open>searchStations\<close> have the same body but for the cache key, the request to the
  directory and the message of the error they throw. \<open>cachedListing\<close> is that body:
  \<open>fetched\<close> is the outcome of the request, which is made only after a miss; \<open>now\<close> is
  \<open>Date.now()\<close> before the request and \<open>now'\<close> after it. The \<open>catch\<close> replaces every
  error, the rate limiter's too, by \<open>new Error(msg)\<close>.
\<close>

definition cachedListing ::
  "radio_service \<Rightarrow> int \<Rightarrow> int \<Rightarrow> string \<Rightarrow> (js_error + station list) \<Rightarrow> int option \<Rightarrow> string
     \<Rightarrow> (js_error + cache_value) \<times> radio_service" where
  "cachedListing svc now now' cacheKey fetched lmt msg =
     (case checkRateLimit (rateLimiter svc) now of
        (Inl e, rl) \<Rightarrow> (Inl (Error msg), svc\<lparr>rateLimiter := rl\<rparr>)
      | (Inr u, rl) \<Rightarrow>
          (case nc_get (nodeCache svc) now cacheKey of
             (Some cached, c) \<Rightarrow> (Inr cached, \<lparr>nodeCache = c, rateLimiter = rl\<rparr>)
           | (None, c) \<Rightarrow>
               (case fetched of
                  Inl e \<Rightarrow> (Inl (Error msg), \<lparr>nodeCache = c, rateLimiter = rl\<rparr>)
                | Inr stations \<Rightarrow>
                    (let validStations = filterValidStations stations;
                         qualityStations = addStreamQuality (slice0 validStations lmt)
                     in (Inr (Stations qualityStations),
                         \<lparr>nodeCache = nc_set c now' cacheKey (Stations qualityStations) stdTTL,
                          rateLimiter = rl\<rparr>)))))"

definition getPopularStations ::
  "radio_browser \<Rightarrow> radio_service \<Rightarrow> int \<Rightarrow> int \<Rightarrow> int option
     \<Rightarrow> (js_error + cache_value) \<times> radio_service" where
  "getPopularStations rb svc now now' lmt =
     cachedListing svc now now' (''popular_stations_'' @ numToString lmt)
       (rb_getStations rb (byClicks lmt)) lmt
       ''Failed to fetch popular radio stations''"

definition getStationsByCountry ::
  "radio_browser \<Rightarrow> radio_service \<Rightarrow> int \<Rightarrow> int \<Rightarrow> string \<Rightarrow> int option
     \<Rightarrow> (js_error + cache_value) \<times> radio_service" where
  "getStationsByCountry rb svc now now' country lmt =
     cachedListing svc now now' (''country_stations_'' @ country @ ''_'' @ numToString lmt)
       (rb_getStations rb ((byClicks lmt)\<lparr>f_countrycode := Some (toUpperCase country)\<rparr>)) lmt
       (''Failed to fetch radio stations for '' @ country)"

definition getStationsByGenre ::
  "radio_browser \<Rightarrow> radio_service \<Rightarrow> int \<Rightarrow> int \<Rightarrow> string \<Rightarrow> int option
     \<Rightarrow> (js_error + cache_value) \<times> radio_service" where
  "getStationsByGenre rb svc now now' g lmt =
     cachedListing svc now now' (''genre_stations_'' @ g @ ''_'' @ numToString lmt)
       (rb_getStations rb ((byClicks lmt)\<lparr>f_tag := Some g\<rparr>)) lmt
       (''Failed to fetch radio stations for genre '' @ g)"

definition searchStations ::
  "radio_browser \<Rightarrow> radio_service \<Rightarrow> int \<Rightarrow> int \<Rightarrow> string \<Rightarrow> int option
     \<Rightarrow> (js_error + cache_value) \<times> radio_service" where
  "searchStations rb svc now now' query lmt =
     cachedListing svc now now' (''search_stations_'' @ query @ ''_'' @ numToString lmt)
       (rb_searchStations rb ((byClicks lmt)\<lparr>f_name := Some query\<rparr>)) lmt
       (''Failed to search radio stations for '' @ query)"

subsection \<open>The other methods that touch the cache or the rate limiter\<close>

text \<open>Lines 189 to 225. \<open>!station.url_resolved\<close> holds of a missing and of an empty
  URL.\<close>

definition getStationDetails ::
  "radio_browser \<Rightarrow> radio_service \<Rightarrow> int \<Rightarrow> int \<Rightarrow> string
     \<Rightarrow> (js_error + cache_value) \<times> radio_service" where
  "getStationDetails rb svc now now' stationId =
     (let msg = ''Failed to fetch station details for '' @ stationId;
          cacheKey = ''station_details_'' @ stationId
      in case checkRateLimit (rateLimiter svc) now of
           (Inl e, rl) \<Rightarrow> (Inl (Error msg), svc\<lparr>rateLimiter := rl\<rparr>)
         | (Inr u, rl) \<Rightarrow>
             (case nc_get (nodeCache svc) now cacheKey of
                (Some cached, c) \<Rightarrow> (Inr cached, \<lparr>nodeCache = c, rateLimiter = rl\<rparr>)
              | (None, c) \<Rightarrow>
                  (case rb_getStations rb (noFilter\<lparr>f_stationuuid := Some stationId\<rparr>) of
                     Inl e \<Rightarrow> (Inl (Error msg), \<lparr>nodeCache = c, rateLimiter = rl\<rparr>)
                   | Inr [] \<Rightarrow> (Inl (Error msg), \<lparr>nodeCache = c, rateLimiter = rl\<rparr>)
                   | Inr (st # rest) \<Rightarrow>
                       (if str_or (url_resolved st) None = None \<or> url_resolved st = Some ''null''
                        then (Inl (Error msg), \<lparr>nodeCache = c, rateLimiter = rl\<rparr>)
                        else (Inr (Details (withQuality st)),
                              \<lparr>nodeCache = nc_set c now' cacheKey (Details (withQuality st)) stdTTL,
                               rateLimiter = rl\<rparr>)))))"

text \<open>Lines 263 to 285.\<close>

definition getCountries ::
  "radio_browser \<Rightarrow> radio_service \<Rightarrow> int \<Rightarrow> int \<Rightarrow> (js_error + cache_value) \<times> radio_service" where
  "getCountries rb svc now now' =
     (let msg = ''Failed to fetch available countries''
      in case checkRateLimit (rateLimiter svc) now of
           (Inl e, rl) \<Rightarrow> (Inl (Error msg), svc\<lparr>rateLimiter := rl\<rparr>)
         | (Inr u, rl) \<Rightarrow>
             (case nc_get (nodeCache svc) now ''countries'' of
                (Some cached, c) \<Rightarrow> (Inr cached, \<lparr>nodeCache = c, rateLimiter = rl\<rparr>)
              | (None, c) \<Rightarrow>
                  (case rb_getCountries rb of
                     Inl e \<Rightarrow> (Inl (Error msg), \<lparr>nodeCache = c, rateLimiter = rl\<rparr>)
                   | Inr countries \<Rightarrow>
                       (Inr (Countries countries),
                        \<lparr>nodeCache = nc_set c now' ''countries'' (Countries countries) 3600,
                         rateLimiter = rl\<rparr>))))"

text \<open>Lines 288 to 316.\<close>

definition getGenres ::
  "radio_browser \<Rightarrow> radio_service \<Rightarrow> int \<Rightarrow> int \<Rightarrow> (js_error + cache_value) \<times> radio_service" where
  "getGenres rb svc now now' =
     (let msg = ''Failed to fetch available genres''
      in case checkRateLimit (rateLimiter svc) now of
           (Inl e, rl) \<Rightarrow> (Inl (Error msg), svc\<lparr>rateLimiter := rl\<rparr>)
         | (Inr u, rl) \<Rightarrow>
             (case nc_get (nodeCache svc) now ''genres'' of
                (Some cached, c) \<Rightarrow> (Inr cached, \<lparr>nodeCache = c, rateLimiter = rl\<rparr>)
              | (None, c) \<Rightarrow>
                  (case rb_getTags rb of
                     Inl e \<Rightarrow> (Inl (Error msg), \<lparr>nodeCache = c, rateLimiter = rl\<rparr>)
                   | Inr tags \<Rightarrow>
                       (let popularGenres =
                              slice0 (js_sort (\<lambda>a b. of_int (stationcount b - stationcount a))
                                        (filter (\<lambda>tag. stationcount tag > 10) tags)) (Some 50)
                        in (Inr (Genres popularGenres),
                            \<lparr>nodeCache = nc_set c now' ''genres'' (Genres popularGenres) 3600,
                             rateLimiter = rl\<rparr>)))))"

text \<open>Lines 243 to 260: a click never throws; it counts against the rate limit.\<close>

definition clickStation :: "radio_browser \<Rightarrow> radio_service \<Rightarrow> int \<Rightarrow> string \<Rightarrow> bool \<times> radio_service" where
  "clickStation rb svc now stationId =
     (case checkRateLimit (rateLimiter svc) now of
        (Inl e, rl) \<Rightarrow> (False, svc\<lparr>rateLimiter := rl\<rparr>)
      | (Inr u, rl) \<Rightarrow> (rb_clickStation rb stationId = None, svc\<lparr>rateLimiter := rl\<rparr>))"

text \<open>Lines 340 to 344.\<close>

definition clearCache :: "radio_service \<Rightarrow> radio_service" where
  "clearCache svc = svc\<lparr>nodeCache := flushAll\<rparr>"

text \<open>The four listing methods as one function of which method is called.\<close>

datatype listing = Popular | ByCountry string | ByGenre string | Search string

fun runListing ::
  "radio_browser \<Rightarrow> radio_service \<Rightarrow> int \<Rightarrow> int \<Rightarrow> listing \<Rightarrow> int option
     \<Rightarrow> (js_error + cache_value) \<times> radio_service" where
  "runListing rb svc now now' Popular lmt = getPopularStations rb svc now now' lmt"
| "runListing rb svc now now' (ByCountry country) lmt = getStationsByCountry rb svc now now' country lmt"
| "runListing rb svc now now' (ByGenre g) lmt = getStationsByGenre rb svc now now' g lmt"
| "runListing rb svc now now' (Search query) lmt = searchStations rb svc now now' query lmt"

text \<open>
  The states the service can be in: the module is loaded with an empty cache and a
  rate limiter at zero, and from then on its state changes only through its methods and
  the cache's timer. \<open>getStreamUrl\<close> changes the state as the \<open>getStationDetails\<close> it
  calls, and \<open>healthCheck\<close> leaves it as it is.
\<close>

inductive reachable :: "radio_service \<Rightarrow> bool" where
  initial: "reachable \<lparr>nodeCache = Map.empty, rateLimiter = \<lparr>requests = 0, lastReset = t0\<rparr>\<rparr>"
| listed: "reachable svc \<Longrightarrow> reachable (snd (runListing rb svc now now' l lmt))"
| details: "reachable svc \<Longrightarrow> reachable (snd (getStationDetails rb svc now now' stationId))"
| countries: "reachable svc \<Longrightarrow> reachable (snd (getCountries rb svc now now'))"
| genres: "reachable svc \<Longrightarrow> reachable (snd (getGenres rb svc now now'))"
| clicked: "reachable svc \<Longrightarrow> reachable (snd (clickStation rb svc now stationId))"
| cleared: "reachable svc \<Longrightarrow> reachable (clearCache svc)"
| swept: "reachable svc \<Longrightarrow> reachable (svc\<lparr>nodeCache := nc_sweep (nodeCache svc) now\<rparr>)"



section \<open>Content resolution: \<open>GET /api/content/:type/:id\<close> (server/routes/content.js)\<close>

subsection \<open>Data\<close>

text \<open>
  The object that \<open>transformMovieData\<close> and \<open>transformTVData\<close> build, with the fields
  the handler reads or rewrites; the others (overview, genres, cast, crew and so on) are
  copied from the provider's payload and the handler never looks at them. A \<open>Content\<close>
  document of the store has these fields and, among others, a view counter and the time
  its cached copy expires.
\<close>

record video =
  v_key :: "string option"
  v_name :: "string option"
  v_site :: "string option"
  v_type :: "string option"
  v_official :: "bool option"
  v_publishedAt :: "string option"

record tmdb_details =
  td_id :: "int option"
  td_title :: "string option"
  td_name :: "string option"
  td_original_language :: "string option"
  td_poster_path :: "string option"
  td_videos :: "video list option"      \<comment> \<open>\<open>videos?.results\<close>\<close>

record content =
  tmdbId :: string
  title :: "string option"
  ctype :: string
  language :: "string option"
  original_language :: "string option"
  poster_url :: "string option"
  trailers :: "video list"

record content_doc = content +
  views :: int
  cacheExpiry :: int

record yt_item =
  yt_videoId :: "string option"     \<comment> \<open>\<open>item.id.videoId\<close>\<close>
  yt_title :: string                \<comment> \<open>\<open>item.snippet.title\<close>\<close>
  yt_publishedAt :: "string option" \<comment> \<open>\<open>item.snippet.publishedAt\<close>\<close>

record history_entry =
  contentId :: string
  contentType :: string
  he_title :: "string option"
  he_poster :: "string option"

record user_doc =
  userId :: string
  watchHistory :: "history_entry list"

record app_state =
  contents :: "content_doc list"
  users :: "string \<rightharpoonup> user_doc"

record content_request =
  r_type :: string
  r_id :: string
  r_user :: "user_doc option"       \<comment> \<open>\<open>req.user\<close>, set by \<open>optionalAuth\<close>\<close>

text \<open>What the handler sends as \<open>data\<close>: a document of the store, or the object just
  built from the provider's payload.\<close>

datatype content_data = Document content_doc | Fetched content

subsection \<open>Collaborators\<close>

datatype store_op = FindOne | FindOneAndUpdate | SaveContent | SaveUser

datatype content_call =
    CallFindOne string string
  | CallGetMovieDetails string
  | CallGetTVShowDetails string
  | CallSearchVideos string
  | CallFindOneAndUpdate string string
  | CallSaveContent string
  | CallSaveUser string

text \<open>
  \<open>clock\<close> is the time of the request. \<open>storeFailure\<close> says which operations of the
  document store reject, and with what.
\<close>

record content_env =
  clock :: int
  tmdbGetMovieDetails :: "string \<Rightarrow> js_error + tmdb_details"
  tmdbGetTVShowDetails :: "string \<Rightarrow> js_error + tmdb_details"
  ytSearchVideos :: "string \<Rightarrow> js_error + yt_item list option"
  storeFailure :: "store_op \<Rightarrow> js_error option"

subsection \<open>The metadata adapter's transformations (src/unnamed/part_005, lines 974 to 1091)\<close>

definition youtubeTrailers :: "video list option \<Rightarrow> video list" where
  "youtubeTrailers vs =
     (case vs of
        None \<Rightarrow> []
      | Some rs \<Rightarrow> filter (\<lambda>video. v_type video = Some ''Trailer'' \<and> v_site video = Some ''YouTube'') rs)"

definition transformMovieData :: "tmdb_details \<Rightarrow> js_error + content" where
  "transformMovieData tmdbMovie =
     (case td_id tmdbMovie of
        None \<Rightarrow> Inl (TypeError ''Cannot read properties of undefined (reading 'toString')'')
      | Some i \<Rightarrow>
          Inr \<lparr> tmdbId = numToString (Some i),
                title = td_title tmdbMovie,
                ctype = ''movie'',
                language = td_original_language tmdbMovie,
                original_language = None,
                poster_url = getImageURL (td_poster_path tmdbMovie) ''w500'',
                trailers = youtubeTrailers (td_videos tmdbMovie) \<rparr>)"

definition transformTVData :: "tmdb_details \<Rightarrow> js_error + content" where
  "transformTVData tmdbTV =
     (case td_id tmdbTV of
        None \<Rightarrow> Inl (TypeError ''Cannot read properties of undefined (reading 'toString')'')
      | Some i \<Rightarrow>
          Inr \<lparr> tmdbId = numToString (Some i),
                title = td_name tmdbTV,
                ctype = ''tv'',
                language = td_original_language tmdbTV,
                original_language = None,
                poster_url = getImageURL (td_poster_path tmdbTV) ''w500'',
                trailers = youtubeTrailers (td_videos tmdbTV) \<rparr>)"

subsection \<open>The video adapter's trailer search (src/unnamed/part_004)\<close>

text \<open>
  \<open>searchMovieTrailer(title, year)\<close> and \<open>searchTVTrailer(title, season)\<close> have the same
  body; both catch every error and return \<open>[]\<close>. A missing title is rendered
  \<open>undefined\<close> by the template literal.
\<close>

definition templateStr :: "string option \<Rightarrow> string" where
  "templateStr a = (case a of Some s \<Rightarrow> s | None \<Rightarrow> ''undefined'')"

definition trailerQuery :: "string option \<Rightarrow> string \<Rightarrow> int option \<Rightarrow> string" where
  "trailerQuery t label n =
     templateStr t
     @ (case n of
          None \<Rightarrow> []
        | Some y \<Rightarrow> (if y = 0 then [] else '' '' @ label @ numToString (Some y)))
     @ '' official trailer''"

definition looksLikeTrailer :: "yt_item \<Rightarrow> bool" where
  "looksLikeTrailer item =
     (str_includes (toLowerCase (yt_title item)) ''trailer''
      \<or> str_includes (toLowerCase (yt_title item)) ''official'')"

definition searchTrailer :: "content_env \<Rightarrow> string \<Rightarrow> yt_item list" where
  "searchTrailer env searchQuery =
     (case ytSearchVideos env searchQuery of
        Inl e \<Rightarrow> []
      | Inr None \<Rightarrow> []
      | Inr (Some items) \<Rightarrow>
          (if filter looksLikeTrailer items \<noteq> [] then filter looksLikeTrailer items else items))"

definition searchMovieTrailer :: "content_env \<Rightarrow> string option \<Rightarrow> int option \<Rightarrow> yt_item list" where
  "searchMovieTrailer env movieTitle yr = searchTrailer env (trailerQuery movieTitle [] yr)"

definition searchTVTrailer :: "content_env \<Rightarrow> string option \<Rightarrow> int option \<Rightarrow> yt_item list" where
  "searchTVTrailer env showTitle season = searchTrailer env (trailerQuery showTitle ''season '' season)"

subsection \<open>The document store and the models' methods (src/unnamed/part_006 and part_007)\<close>

definition matches :: "string \<Rightarrow> string \<Rightarrow> content_doc \<Rightarrow> bool" where
  "matches cid ty d = (tmdbId d = cid \<and> ctype d = ty)"

text \<open>\<open>Content.findOne({ tmdbId: id, type })\<close>.\<close>

definition findOne :: "content_doc list \<Rightarrow> string \<Rightarrow> string \<Rightarrow> content_doc option" where
  "findOne docs cid ty = find (matches cid ty) docs"

fun updateFirst :: "('a \<Rightarrow> bool) \<Rightarrow> ('a \<Rightarrow> 'a) \<Rightarrow> 'a list \<Rightarrow> 'a list" where
  "updateFirst P f [] = []"
| "updateFirst P f (x # xs) = (if P x then f x # xs else x # updateFirst P f xs)"

text \<open>\<open>contentSchema.methods.needsUpdate\<close>.\<close>

definition needsUpdate :: "content_doc \<Rightarrow> int \<Rightarrow> bool" where
  "needsUpdate d now = (cacheExpiry d < now)"

text \<open>
  \<open>Content.findOneAndUpdate(filter, sanitizedContent, {upsert: true, new: true,
  setDefaultsOnInsert: true})\<close>: the fields of the update are set on the first matching
  document, the others (the view counter and the expiry among them) are left as they
  are; with no match, a document is inserted with the schema's defaults, an expiry of 24
  hours from now among them.
\<close>

definition setField :: "'a option \<Rightarrow> 'a option \<Rightarrow> 'a option" where
  "setField old new = (case new of None \<Rightarrow> old | Some v \<Rightarrow> Some v)"

definition assignContent :: "content \<Rightarrow> content_doc \<Rightarrow> content_doc" where
  "assignContent c d =
     d\<lparr> tmdbId := tmdbId c,
        title := setField (title d) (title c),
        ctype := ctype c,
        language := setField (language d) (language c),
        original_language := setField (original_language d) (original_language c),
        poster_url := poster_url c,
        trailers := trailers c \<rparr>"

definition newDocument :: "content \<Rightarrow> int \<Rightarrow> content_doc" where
  "newDocument c now =
     \<lparr> tmdbId = tmdbId c, title = title c, ctype = ctype c, language = language c,
       original_language = original_language c, poster_url = poster_url c,
       trailers = trailers c, views = 0, cacheExpiry = now + 24 * 60 * 60 * 1000 \<rparr>"

definition upsert :: "content_doc list \<Rightarrow> string \<Rightarrow> string \<Rightarrow> content \<Rightarrow> int \<Rightarrow> content_doc list" where
  "upsert docs cid ty c now =
     (case findOne docs cid ty of
        Some d \<Rightarrow> updateFirst (matches cid ty) (assignContent c) docs
      | None \<Rightarrow> docs @ [newDocument c now])"

text \<open>\<open>userSchema.methods.addToWatchHistory\<close>, up to its \<open>save\<close>.\<close>

definition addToWatchHistory :: "user_doc \<Rightarrow> history_entry \<Rightarrow> user_doc" where
  "addToWatchHistory u contentData =
     (let h = contentData # filter (\<lambda>item. contentId item \<noteq> contentId contentData) (watchHistory u)
      in u\<lparr>watchHistory := (if length h > 100 then take 100 h else h)\<rparr>)"

subsection \<open>The handler\<close>

text \<open>Lines 441 to 460: the trailer lookup, when the provider gave none.\<close>

definition trailerOf :: "yt_item \<Rightarrow> video" where
  "trailerOf trailer =
     \<lparr> v_key = yt_videoId trailer, v_name = Some (yt_title trailer), v_site = Some ''YouTube'',
       v_type = Some ''Trailer'', v_official = Some False, v_publishedAt = yt_publishedAt trailer \<rparr>"

definition enrichTrailers :: "content_env \<Rightarrow> string \<Rightarrow> content \<Rightarrow> content \<times> content_call list" where
  "enrichTrailers env ty c =
     (if trailers c = [] then
        (let found = (if ty = ''movie'' then searchMovieTrailer env (title c) None
                      else searchTVTrailer env (title c) None);
             searched = CallSearchVideos (trailerQuery (title c) [] None)
         in if found \<noteq> [] then (c\<lparr>trailers := map trailerOf (take 3 found)\<rparr>, [searched])
            else (c, [searched]))
      else (c, []))"

text \<open>Lines 464 to 475: the copy that is written to the store.\<close>

definition sanitize :: "content \<Rightarrow> content" where
  "sanitize c =
     c\<lparr> original_language :=
          (if original_language c = Some ''ja'' \<or> original_language c = Some ''zh''
              \<or> original_language c = Some ''ko''
           then Some ''en'' else original_language c),
        language := None \<rparr>"

text \<open>Lines 430 to 482: fetch from the provider, enrich, persist. Nothing here has a
  \<open>try\<close> of its own but the trailer lookup.\<close>

definition fetchAndPersist ::
  "content_env \<Rightarrow> app_state \<Rightarrow> string \<Rightarrow> string
     \<Rightarrow> (js_error + content) \<times> app_state \<times> content_call list" where
  "fetchAndPersist env s ty cid =
     (let getCall = (if ty = ''movie'' then CallGetMovieDetails cid else CallGetTVShowDetails cid)
      in case (if ty = ''movie'' then tmdbGetMovieDetails env cid
               else tmdbGetTVShowDetails env cid) of
           Inl e \<Rightarrow> (Inl e, s, [getCall])
         | Inr tmdbData \<Rightarrow>
             (case (if ty = ''movie'' then transformMovieData tmdbData
                    else transformTVData tmdbData) of
                Inl e \<Rightarrow> (Inl e, s, [getCall])
              | Inr c0 \<Rightarrow>
                  (case enrichTrailers env ty c0 of
                     (c, ycalls) \<Rightarrow>
                       (case storeFailure env FindOneAndUpdate of
                          Some e \<Rightarrow> (Inl e, s, getCall # ycalls @ [CallFindOneAndUpdate cid ty])
                        | None \<Rightarrow>
                            (Inr c,
                             s\<lparr>contents := upsert (contents s) cid ty (sanitize c) (clock env)\<rparr>,
                             getCall # ycalls @ [CallFindOneAndUpdate cid ty])))))"

text \<open>
  Lines 427 to 487, the branch of \<open>movie\<close> and \<open>tv\<close>. A document that is found and has
  not expired is served, after \<open>incrementViews\<close> (\<open>this.views += 1; return this.save()\<close>).
  Otherwise the content is fetched; the object built from the payload has no
  \<open>incrementViews\<close>, so no view is counted.
\<close>

definition refetch ::
  "content_env \<Rightarrow> app_state \<Rightarrow> string \<Rightarrow> string
     \<Rightarrow> (js_error + content_data) \<times> app_state \<times> content_call list" where
  "refetch env s ty cid =
     (case fetchAndPersist env s ty cid of
        (Inl e, s1, calls) \<Rightarrow> (Inl e, s1, CallFindOne cid ty # calls)
      | (Inr c, s1, calls) \<Rightarrow> (Inr (Fetched c), s1, CallFindOne cid ty # calls))"

definition serveDocument ::
  "content_env \<Rightarrow> app_state \<Rightarrow> string \<Rightarrow> string \<Rightarrow> content_doc
     \<Rightarrow> (js_error + content_data) \<times> app_state \<times> content_call list" where
  "serveDocument env s ty cid d =
     (case storeFailure env SaveContent of
        Some e \<Rightarrow> (Inl e, s, [CallFindOne cid ty, CallSaveContent cid])
      | None \<Rightarrow>
          (Inr (Document (d\<lparr>views := views d + 1\<rparr>)),
           s\<lparr>contents := updateFirst (matches cid ty) (\<lambda>x. d\<lparr>views := views d + 1\<rparr>) (contents s)\<rparr>,
           [CallFindOne cid ty, CallSaveContent cid]))"

definition resolveTmdb ::
  "content_env \<Rightarrow> app_state \<Rightarrow> string \<Rightarrow> string
     \<Rightarrow> (js_error + content_data) \<times> app_state \<times> content_call list" where
  "resolveTmdb env s ty cid =
     (case storeFailure env FindOne of
        Some e \<Rightarrow> (Inl e, s, [CallFindOne cid ty])
      | None \<Rightarrow>
          (case findOne (contents s) cid ty of
             None \<Rightarrow> refetch env s ty cid
           | Some d \<Rightarrow>
               (if needsUpdate d (clock env) then refetch env s ty cid
                else serveDocument env s ty cid d)))"

definition fail500 :: "string \<Rightarrow> js_error" where
  "fail500 ty = AppError (''Failed to fetch '' @ ty @ '' details'') 500"

definition posterOf :: "content_data \<Rightarrow> string option" where
  "posterOf c = (case c of Document d \<Rightarrow> poster_url d | Fetched ob \<Rightarrow> poster_url ob)"

definition titleOf :: "content_data \<Rightarrow> string option" where
  "titleOf c = (case c of Document d \<Rightarrow> title d | Fetched ob \<Rightarrow> title ob)"

text \<open>
  The handler, lines 406 to 509. The type is checked before the \<open>try\<close>. For \<open>radio\<close> the
  handler calls \<open>radioBrowserService.getStationByUuid\<close>, which the service does not
  define: the call raises a \<open>TypeError\<close> inside the \<open>try\<close>, and the \<open>catch\<close> answers as
  for every other error. The result is what the client gets, the state of the store
  afterwards and the calls made.
\<close>

definition content_handler ::
  "content_env \<Rightarrow> app_state \<Rightarrow> content_request
     \<Rightarrow> (js_error + content_data) \<times> app_state \<times> content_call list" where
  "content_handler env s rq =
     (let ty = r_type rq; cid = r_id rq in
      if \<not> (ty = ''movie'' \<or> ty = ''tv'' \<or> ty = ''radio'')
      then (Inl (AppError ''Invalid content type'' 400), s, [])
      else if ty = ''radio'' then (Inl (fail500 ty), s, [])
      else
        (case resolveTmdb env s ty cid of
           (Inl e, s1, calls) \<Rightarrow> (Inl (fail500 ty), s1, calls)
         | (Inr c, s1, calls) \<Rightarrow>
             (case r_user rq of
                None \<Rightarrow> (Inr c, s1, calls)
              | Some user \<Rightarrow>
                  (case storeFailure env SaveUser of
                     Some e \<Rightarrow> (Inl (fail500 ty), s1, calls @ [CallSaveUser (userId user)])
                   | None \<Rightarrow>
                       (Inr c,
                        s1\<lparr>users := (users s1)(userId user \<mapsto>
                               addToWatchHistory user
                                 \<lparr> contentId = cid, contentType = ty,
                                   he_title = titleOf c, he_poster = posterOf c \<rparr>)\<rparr>,
                        calls @ [CallSaveUser (userId user)])))))"


section \<open>Definitions used to state the properties\<close>

subsection \<open>Aggregated search\<close>



text \<open>
  The request that the radio branch sends to the store: the genre, the limit and the
  number of documents to skip.
\<close>

definition radioRequest :: "search_query \<Rightarrow> string option \<times> int option \<times> int option" where
  "radioRequest rq =
     (str_or (genre rq) None, parseIntParam (limit rq) 20,
      js_mul (js_sub (parseIntParam (page rq) 1) (Some 1)) (parseIntParam (limit rq) 20))"



definition resultsOf :: "(js_error + search_response) \<times> call list \<Rightarrow> result_item list" where
  "resultsOf r = (case successData r of Some d \<Rightarrow> sd_results d | None \<Rightarrow> [])"


subsection \<open>Radio directory adapter\<close>

text \<open>
  The cache key, the request and the error message of each listing method, read off
  the four methods (\<open>runListing_eq\<close> below).
\<close>

definition listingKey :: "listing \<Rightarrow> int option \<Rightarrow> string" where
  "listingKey l lmt =
     (case l of
        Popular \<Rightarrow> ''popular_stations_'' @ numToString lmt
      | ByCountry country \<Rightarrow> ''country_stations_'' @ country @ ''_'' @ numToString lmt
      | ByGenre g \<Rightarrow> ''genre_stations_'' @ g @ ''_'' @ numToString lmt
      | Search query \<Rightarrow> ''search_stations_'' @ query @ ''_'' @ numToString lmt)"

definition listingFetch :: "radio_browser \<Rightarrow> listing \<Rightarrow> int option \<Rightarrow> js_error + station list" where
  "listingFetch rb l lmt =
     (case l of
        Popular \<Rightarrow> rb_getStations rb (byClicks lmt)
      | ByCountry country \<Rightarrow> rb_getStations rb ((byClicks lmt)\<lparr>f_countrycode := Some (toUpperCase country)\<rparr>)
      | ByGenre g \<Rightarrow> rb_getStations rb ((byClicks lmt)\<lparr>f_tag := Some g\<rparr>)
      | Search query \<Rightarrow> rb_searchStations rb ((byClicks lmt)\<lparr>f_name := Some query\<rparr>))"

definition listingMessage :: "listing \<Rightarrow> string" where
  "listingMessage l =
     (case l of
        Popular \<Rightarrow> ''Failed to fetch popular radio stations''
      | ByCountry country \<Rightarrow> ''Failed to fetch radio stations for '' @ country
      | ByGenre g \<Rightarrow> ''Failed to fetch radio stations for genre '' @ g
      | Search query \<Rightarrow> ''Failed to search radio stations for '' @ query)"

text \<open>
  A station as the listing methods hand it out: a stream URL that passed
  \<open>filterValidStations\<close>, repeated in \<open>streamUrl\<close>, and the quality tag of its
  bitrate.
\<close>

definition servedStation :: "quality_station \<Rightarrow> bool" where
  "servedStation s =
     ((\<exists>u. url_resolved s = Some u \<and> u \<noteq> [] \<and> trim u \<noteq> [] \<and> u \<noteq> ''null''
            \<and> \<not> str_includes u ''null'' \<and> streamUrl s = Some u)
      \<and> (quality s = ''high'' \<longleftrightarrow> bitrate_gt (bitrate s) 128)
      \<and> (quality s = ''medium'' \<longleftrightarrow> bitrate_gt (bitrate s) 64 \<and> \<not> bitrate_gt (bitrate s) 128)
      \<and> (quality s = ''low'' \<longleftrightarrow> \<not> bitrate_gt (bitrate s) 64))"

definition goodStations :: "int option \<Rightarrow> quality_station list \<Rightarrow> bool" where
  "goodStations lmt qs =
     ((\<forall>s \<in> set qs. servedStation s) \<and> (\<forall>n. lmt = Some n \<and> 0 \<le> n \<longrightarrow> int (length qs) \<le> n))"

text \<open>
  The invariant of the cache: under the key of a listing with limit \<open>lmt\<close> there are
  only lists of served stations, no longer than a non-negative \<open>lmt\<close>.
\<close>

definition cacheInv :: "cache_value node_cache \<Rightarrow> bool" where
  "cacheInv c =
     (\<forall>l lmt e. c (listingKey l lmt) = Some e \<longrightarrow> (\<exists>qs. nc_value e = Stations qs \<and> goodStations lmt qs))"

definition stationsOf :: "js_error + cache_value \<Rightarrow> quality_station list option" where
  "stationsOf r = (case r of Inr (Stations qs) \<Rightarrow> Some qs | _ \<Rightarrow> None)"

subsection \<open>Content resolution\<close>

text \<open>
  The provider call that the handler makes for a request, its outcome, and the entry
  it appends to the watch history.
\<close>

definition upstreamDetails :: "content_env \<Rightarrow> content_request \<Rightarrow> js_error + tmdb_details" where
  "upstreamDetails env rq =
     (if r_type rq = ''movie'' then tmdbGetMovieDetails env (r_id rq)
      else tmdbGetTVShowDetails env (r_id rq))"

definition upstreamCall :: "content_request \<Rightarrow> content_call" where
  "upstreamCall rq =
     (if r_type rq = ''movie'' then CallGetMovieDetails (r_id rq) else CallGetTVShowDetails (r_id rq))"

definition historyEntry :: "content_request \<Rightarrow> content_data \<Rightarrow> history_entry" where
  "historyEntry rq c =
     \<lparr> contentId = r_id rq, contentType = r_type rq, he_title = titleOf c, he_poster = posterOf c \<rparr>"

section \<open>Sample data\<close>

text \<open>
  Concrete inputs for the examples. The sample collation compares the lower-cased
  strings by their character codes.
\<close>

definition sampleCollation :: "string \<Rightarrow> string \<Rightarrow> int" where
  "sampleCollation a b =
     (if toLowerCase a < toLowerCase b then - 1
      else if toLowerCase a = toLowerCase b then 0 else 1)"

definition sampleRuntime :: runtime where
  "sampleRuntime = \<lparr> localeCompare = sampleCollation, getFullYear = (\<lambda>s. parseInt (take 4 s)) \<rparr>"

definition sampleItem :: "int \<Rightarrow> string \<Rightarrow> string \<Rightarrow> rat \<Rightarrow> tmdb_item" where
  "sampleItem i mt t r =
     \<lparr> ti_id = i, ti_title = Some t, ti_name = None, ti_poster_path = None,
       ti_backdrop_path = None, ti_media_type = Some mt, ti_vote_average = Some r,
       ti_release_date = None, ti_first_air_date = None, ti_overview = None,
       ti_popularity = None \<rparr>"

definition sampleEnv :: "tmdb_item list \<Rightarrow> int \<Rightarrow> search_env" where
  "sampleEnv items n =
     \<lparr> tmdbSearch = (\<lambda>query pg. Inr \<lparr>tr_results = Some items, tr_total_results = Some n\<rparr>),
       radioFind = (\<lambda>query g lmt skip. Inr []),
       radioCount = (\<lambda>query g. Inr 0) \<rparr>"

definition sampleQuery :: "string \<Rightarrow> string \<Rightarrow> search_query" where
  "sampleQuery ty sb =
     \<lparr> q = Some ''star'', qtype = Some ty, page = Some ''1'', limit = Some ''2'', genre = None,
       year = None, sortBy = Some sb \<rparr>"

definition ratedItems :: "tmdb_item list" where
  "ratedItems = [sampleItem 1 ''movie'' ''Alpha'' 3, sampleItem 2 ''movie'' ''beta'' 9,
                 sampleItem 3 ''tv'' ''Gamma'' 5]"


definition fiveMovies :: "tmdb_item list" where
  "fiveMovies = [sampleItem 1 ''movie'' ''A'' 1, sampleItem 2 ''movie'' ''B'' 2,
                 sampleItem 3 ''movie'' ''C'' 3, sampleItem 4 ''movie'' ''D'' 4,
                 sampleItem 5 ''movie'' ''E'' 5]"

definition sampleStation :: radio_station_doc where
  "sampleStation =
     \<lparr> rs_id = ''s1'', rs_name = Some ''Star FM'', rs_logo = None, rs_genre = [''pop''],
       rs_listeners = Some 120, rs_country = Some ''KE'', rs_description = None \<rparr>"



definition radioDownEnv :: search_env where
  "radioDownEnv = (sampleEnv ratedItems 3)\<lparr> radioFind := (\<lambda>query g lmt skip. Inl (Error ''connection lost'')) \<rparr>"

definition tmdbDownEnv :: search_env where
  "tmdbDownEnv =
     \<lparr> tmdbSearch = (\<lambda>query pg. Inl (Error ''TMDB API timeout - please try again later'')),
       radioFind = (\<lambda>query g lmt skip. Inr [sampleStation]),
       radioCount = (\<lambda>query g. Inr 1) \<rparr>"


definition initialService :: radio_service where
  "initialService = \<lparr>nodeCache = Map.empty, rateLimiter = \<lparr>requests = 0, lastReset = 0\<rparr>\<rparr>"

definition sampleStationOf :: "string \<Rightarrow> string \<Rightarrow> int \<Rightarrow> station" where
  "sampleStationOf uuid url br =
     \<lparr> stationuuid = uuid, st_name = Some ''Radio'', url_resolved = Some url, bitrate = Some br \<rparr>"

definition threeStations :: "station list" where
  "threeStations =
     [sampleStationOf ''a'' ''http://a.example/stream'' 192,
      sampleStationOf ''b'' ''http://b.example/stream'' 96,
      sampleStationOf ''c'' ''http://c.example/stream'' 32]"

definition sampleDirectory :: radio_browser where
  "sampleDirectory =
     \<lparr> rb_getStations = (\<lambda>f. Inr threeStations), rb_searchStations = (\<lambda>f. Inr threeStations),
       rb_getCountries = Inr [], rb_getTags = Inr [], rb_clickStation = (\<lambda>stationId. None) \<rparr>"

definition downDirectory :: radio_browser where
  "downDirectory =
     \<lparr> rb_getStations = (\<lambda>f. Inl (Error ''ECONNREFUSED'')),
       rb_searchStations = (\<lambda>f. Inl (Error ''ECONNREFUSED'')),
       rb_getCountries = Inl (Error ''ECONNREFUSED''), rb_getTags = Inl (Error ''ECONNREFUSED''),
       rb_clickStation = (\<lambda>stationId. Some (Error ''ECONNREFUSED'')) \<rparr>"

definition staleCache :: "nat tmdb_cache" where
  "staleCache = [''search_star_1_false'' \<mapsto> \<lparr>data = 5, timestamp = 0\<rparr>]"

definition failingFetch :: "nat \<Rightarrow> (js_error + nat) \<times> nat" where
  "failingFetch w = (Inl (Error ''TMDB API timeout - please try again later''), Suc w)"

definition sampleDoc :: content_doc where
  "sampleDoc =
     \<lparr> tmdbId = ''550'', title = Some ''Fight Club'', ctype = ''movie'', language = None,
       original_language = Some ''en'', poster_url = None, trailers = [], views = 7,
       cacheExpiry = 1000 \<rparr>"

definition sampleState :: app_state where
  "sampleState = \<lparr> contents = [sampleDoc], users = Map.empty \<rparr>"

definition sampleUser :: user_doc where
  "sampleUser = \<lparr> userId = ''u1'', watchHistory = [] \<rparr>"

definition providerDown :: "int \<Rightarrow> content_env" where
  "providerDown t =
     \<lparr> clock = t,
       tmdbGetMovieDetails = (\<lambda>movieId. Inl (Error ''TMDB API timeout - please try again later'')),
       tmdbGetTVShowDetails = (\<lambda>tvId. Inl (Error ''TMDB API timeout - please try again later'')),
       ytSearchVideos = (\<lambda>query. Inr (Some [])),
       storeFailure = (\<lambda>op. None) \<rparr>"

definition historyDown :: "int \<Rightarrow> content_env" where
  "historyDown t =
     (providerDown t)\<lparr> storeFailure := (\<lambda>op. if op = SaveUser then Some (Error ''save failed'') else None) \<rparr>"

definition movieRequest :: "user_doc option \<Rightarrow> content_request" where
  "movieRequest u = \<lparr> r_type = ''movie'', r_id = ''550'', r_user = u \<rparr>"

section \<open>The sort\<close>

lemma set_js_insert: "set (js_insert cmp x xs) = insert x (set xs)"
  by (induction xs) auto

lemma length_js_insert: "length (js_insert cmp x xs) = Suc (length xs)"
  by (induction xs) auto

lemma set_js_sort: "set (js_sort cmp xs) = set xs"
  by (induction xs) (auto simp: set_js_insert)

lemma length_js_sort: "length (js_sort cmp xs) = length xs"
  by (induction xs) (auto simp: length_js_insert)

lemma sorted_js_insert:
  assumes tot: "\<And>a b. cmp a b \<le> 0 \<or> cmp b a \<le> 0"
      and tr: "\<And>a b c. cmp a b \<le> 0 \<Longrightarrow> cmp b c \<le> 0 \<Longrightarrow> cmp a c \<le> 0"
  shows "sorted_wrt (\<lambda>a b. cmp a b \<le> 0) xs \<Longrightarrow> sorted_wrt (\<lambda>a b. cmp a b \<le> 0) (js_insert cmp x xs)"
proof (induction xs)
  case Nil
  then show ?case by simp
next
  case (Cons y ys)
  show ?case
  proof (cases "cmp x y \<le> 0")
    case True
    with Cons.prems tr show ?thesis by auto
  next
    case False
    with tot have "cmp y x \<le> 0" by blast
    with False Cons show ?thesis by (auto simp: set_js_insert)
  qed
qed

lemma sorted_js_sort:
  assumes tot: "\<And>a b. cmp a b \<le> 0 \<or> cmp b a \<le> 0"
      and tr: "\<And>a b c. cmp a b \<le> 0 \<Longrightarrow> cmp b c \<le> 0 \<Longrightarrow> cmp a c \<le> 0"
  shows "sorted_wrt (\<lambda>a b. cmp a b \<le> 0) (js_sort cmp xs)"
proof (induction xs)
  case Nil
  show ?case by simp
next
  case (Cons x xs)
  from sorted_js_insert [of cmp, OF tot tr Cons.IH] show ?case by simp
qed

lemma sorted_js_sort_key:
  fixes key :: "'a \<Rightarrow> 'k::linorder"
  assumes "\<And>a b. cmp a b \<le> 0 \<longleftrightarrow> key b \<le> key a"
  shows "sorted_wrt (\<lambda>a b. key b \<le> key a) (js_sort cmp xs)"
proof -
  have "sorted_wrt (\<lambda>a b. cmp a b \<le> 0) (js_sort cmp xs)"
    by (rule sorted_js_sort) (use assms in \<open>auto intro: order_trans\<close>)
  then show ?thesis by (simp add: assms)
qed

section \<open>Aggregated search: the handler step by step\<close>

lemma search_handler_valid:
  assumes "q rq = Some query" "2 \<le> length (trim query)"
  shows "search_handler rt env rq =
     (let tb = tmdb_branch rt env query (typeParam rq) (page rq) empty_results;
          rb = radio_branch env query (typeParam rq) rq (fst tb)
      in case fst rb of
           Inl err \<Rightarrow> (Inl (AppError ''Search failed'' 500), snd tb @ snd rb)
         | Inr res2 \<Rightarrow> (Inr (Success (respond rt query (typeParam rq) rq res2)), snd tb @ snd rb))"
proof -
  from assms have "query \<noteq> []" by (auto simp: trim_def)
  with assms show ?thesis
    by (simp add: search_handler_def str_or_def Let_def split_beta)
qed

lemma search_handler_short:
  assumes "q rq = None \<or> (\<exists>s. q rq = Some s \<and> length (trim s) < 2)"
  shows "search_handler rt env rq =
     (Inr (Status400 ''Search query must be at least 2 characters long''), [])"
  using assms by (auto simp: search_handler_def str_or_def split: option.splits)


lemma movies_foldl_pushItem:
  "movies (foldl (pushItem rt ty) res items) =
     movies res @ (if ty = ''all'' \<or> ty = ''movie''
                   then map (transformItem rt) (filter (\<lambda>i. ti_media_type i = Some ''movie'') items) else [])"
  by (induction items arbitrary: res) (auto simp: pushItem_def)

lemma tv_foldl_pushItem:
  "tv (foldl (pushItem rt ty) res items) =
     tv res @ (if ty = ''all'' \<or> ty = ''tv''
               then map (transformItem rt) (filter (\<lambda>i. ti_media_type i = Some ''tv'') items) else [])"
  by (induction items arbitrary: res) (auto simp: pushItem_def)

lemma radio_foldl_pushItem: "radio (foldl (pushItem rt ty) res items) = radio res"
  by (induction items arbitrary: res) (auto simp: pushItem_def)

lemma total_foldl_pushItem: "total_count (foldl (pushItem rt ty) res items) = total_count res"
  by (induction items arbitrary: res) (auto simp: pushItem_def)

lemmas foldl_pushItem = movies_foldl_pushItem tv_foldl_pushItem radio_foldl_pushItem total_foldl_pushItem

lemma tmdb_branch_failed:
  "tmdbSearch env query pg = Inl e \<Longrightarrow> fst (tmdb_branch rt env query ty pg res) = res"
  by (simp add: tmdb_branch_def)

lemma tmdb_branch_radio: "radio (fst (tmdb_branch rt env query ty pg res)) = radio res"
  by (simp add: tmdb_branch_def foldl_pushItem Let_def split: sum.splits option.splits)

lemma radio_branch_all:
  assumes "ty = ''all'' \<or> ty = ''radio''"
  shows "radio_branch env query ty rq res =
     (case radioFind env query (str_or (genre rq) None) (parseIntParam (limit rq) 20)
             (js_mul (js_sub (parseIntParam (page rq) 1) (Some 1)) (parseIntParam (limit rq) 20)) of
        Inl e \<Rightarrow> (Inl e, [RadioFind query (str_or (genre rq) None) (parseIntParam (limit rq) 20)
             (js_mul (js_sub (parseIntParam (page rq) 1) (Some 1)) (parseIntParam (limit rq) 20))])
      | Inr stations \<Rightarrow>
          (case radioCount env query (str_or (genre rq) None) of
             Inl e \<Rightarrow> (Inl e, [RadioFind query (str_or (genre rq) None) (parseIntParam (limit rq) 20)
             (js_mul (js_sub (parseIntParam (page rq) 1) (Some 1)) (parseIntParam (limit rq) 20)), RadioCount query (str_or (genre rq) None)])
           | Inr n \<Rightarrow> (Inr (res\<lparr>radio := map radioItem stations, total_count := total_count res + n\<rparr>),
               [RadioFind query (str_or (genre rq) None) (parseIntParam (limit rq) 20)
             (js_mul (js_sub (parseIntParam (page rq) 1) (Some 1)) (parseIntParam (limit rq) 20)), RadioCount query (str_or (genre rq) None)])))"
  using assms by (auto simp: radio_branch_def Let_def split: sum.splits)

lemma radio_branch_skipped:
  assumes "ty \<noteq> ''all''" "ty \<noteq> ''radio''"
  shows "radio_branch env query ty rq res = (Inr res, [])"
  using assms by (simp add: radio_branch_def)



lemma year_filter_radio [simp]: "radio (year_filter y res) = radio res"
  by (simp add: year_filter_def split: option.splits)

lemma year_filter_total [simp]: "total_count (year_filter y res) = total_count res"
  by (simp add: year_filter_def split: option.splits)

lemma respond_results_all:
  "sd_results (respond rt query ''all'' rq res) =
     js_sort (sortFunction rt (sortByParam rq))
       (map Media (sort_media rt (sortByParam rq) (movies (year_filter (year rq) res)))
        @ map Media (sort_media rt (sortByParam rq) (tv (year_filter (year rq) res)))
        @ map Radio (radio res))"
  by (simp add: respond_def Let_def allResults_def year_filter_def split: option.splits)





lemma respond_breakdown:
  "sd_breakdown (respond rt query ty rq res) =
     \<lparr> bd_movies = length (movies (year_filter (year rq) res)),
       bd_tv = length (tv (year_filter (year rq) res)),
       bd_radio = length (radio res), bd_total = total_count res \<rparr>"
  by (simp add: respond_def Let_def sort_media_def length_js_sort year_filter_def split: option.splits)


text \<open>
  Evaluation of the handler on the sample data.
\<close>

lemmas js_eval =
  search_handler_def str_or_def trim_def isWhiteSpace_def typeParam_def sortByParam_def
  tmdb_branch_def radio_branch_def pushItem_def transformItem_def getImageURL_def
  empty_results_def parseIntParam_def parseInt_def digitValue_def mathInt_def js_mul_def js_sub_def
  respond_def year_filter_def sort_media_def allResults_def sortFunction_def
  ratingKey_def yearKey_def titleKey_def popularityKey_def num_or_def int_or_def str_or_empty_def
  strict_eq_def successData_def radioItem_def

lemmas sample_eval = js_eval resultsOf_def sampleEnv_def sampleQuery_def ratedItems_def sampleItem_def
  Let_def fiveMovies_def radioDownEnv_def

lemma star_length: "2 \<le> length (trim ''star'')"
  by (simp add: trim_def isWhiteSpace_def)

lemma sampleQuery_request:
  "q (sampleQuery ty sb) = Some ''star''"
  "radioRequest (sampleQuery ty sb) = (None, Some 2, Some 0)"
  "typeParam (sampleQuery ty sb) = ty" "sortByParam (sampleQuery ty sb) = sb"
  "page (sampleQuery ty sb) = Some ''1''"
  by (simp_all add: sampleQuery_def trim_def isWhiteSpace_def radioRequest_def str_or_def
      parseIntParam_def parseInt_def digitValue_def mathInt_def js_mul_def js_sub_def
      typeParam_def sortByParam_def)












section \<open>Aggregated search: properties\<close>

subsection \<open>Query validation (C10)\<close>

text \<open>
  Claim C10. A search whose \<open>q\<close> parameter is absent, or whose trimmed length is
  below 2, is answered with status 400 and \<open>success: false\<close>; the handler has called
  neither the provider nor the store (the list of calls is empty), and the answer is not
  a successful one.
\<close>

theorem search_rejects_short_query:
  assumes "q rq = None \<or> (\<exists>s. q rq = Some s \<and> length (trim s) < 2)"
  shows "search_handler rt env rq =
           (Inr (Status400 ''Search query must be at least 2 characters long''), [])
       \<and> successData (search_handler rt env rq) = None"
  using search_handler_short [OF assms, of rt env] by (simp add: successData_def)

text \<open>
  The theorem at a query of one letter between two spaces.
\<close>

theorem search_rejects_short_query_witness:
  "q ((sampleQuery ''all'' ''rating'')\<lparr>q := Some '' a ''\<rparr>) = Some '' a ''
   \<and> length (trim '' a '') < 2
   \<and> search_handler sampleRuntime (sampleEnv ratedItems 3) ((sampleQuery ''all'' ''rating'')\<lparr>q := Some '' a ''\<rparr>)
       = (Inr (Status400 ''Search query must be at least 2 characters long''), [])"
proof -
  have h: "length (trim '' a '') < 2" by (simp add: trim_def isWhiteSpace_def)
  have "q ((sampleQuery ''all'' ''rating'')\<lparr>q := Some '' a ''\<rparr>) = Some '' a ''" by simp
  with h search_rejects_short_query
         [of "(sampleQuery ''all'' ''rating'')\<lparr>q := Some '' a ''\<rparr>" sampleRuntime "sampleEnv ratedItems 3"]
  show ?thesis by simp
qed

subsection \<open>Pagination (C2)\<close>




subsection \<open>Failing branches (C5)\<close>

text \<open>
  Claim C5 as stated fails. When the store's \<open>find\<close> on radio stations rejects, the
  whole search fails with \<open>AppError('Search failed', 500)\<close>, although the provider
  answered.
\<close>

theorem search_radio_failure_counterexample:
  "fst (search_handler sampleRuntime radioDownEnv (sampleQuery ''all'' ''popularity''))
     = Inl (AppError ''Search failed'' 500)"
  by (simp add: sample_eval)

text \<open>
  Claim C5, amended. A failure of the provider's search is caught: the branch
  contributes no movie, no TV item and nothing to the total, and the search succeeds with
  what the radio branch found (with type \<open>movie\<close> or \<open>tv\<close>: with an empty result). A
  failure of the radio branch, of \<open>find\<close> or of \<open>countDocuments\<close>, is not caught by a
  \<open>try\<close> of its own: the search fails with status 500.
\<close>

theorem search_branch_failures:
  assumes q: "q rq = Some query" and len: "2 \<le> length (trim query)"
      and rr: "radioRequest rq = (g, lmt, skip)"
  shows "((typeParam rq = ''all'' \<or> typeParam rq = ''radio'')
            \<and> (radioFind env query g lmt skip = Inl e
                 \<or> (\<exists>stations. radioFind env query g lmt skip = Inr stations) \<and> radioCount env query g = Inl e)
          \<longrightarrow> fst (search_handler rt env rq) = Inl (AppError ''Search failed'' 500))
       \<and> (typeParam rq = ''all'' \<and> tmdbSearch env query (page rq) = Inl e
            \<and> radioFind env query g lmt skip = Inr stations \<and> radioCount env query g = Inr n
          \<longrightarrow> (\<exists>d. fst (search_handler rt env rq) = Inr (Success d)
                 \<and> sd_results d = js_sort (sortFunction rt (sortByParam rq)) (map Radio (map radioItem stations))
                 \<and> sd_breakdown d = \<lparr>bd_movies = 0, bd_tv = 0, bd_radio = length stations, bd_total = n\<rparr>))
       \<and> ((typeParam rq = ''movie'' \<or> typeParam rq = ''tv'') \<and> tmdbSearch env query (page rq) = Inl e
          \<longrightarrow> (\<exists>d. search_handler rt env rq = (Inr (Success d), [TmdbSearch query (page rq)])
                 \<and> sd_results d = []
                 \<and> sd_breakdown d = \<lparr>bd_movies = 0, bd_tv = 0, bd_radio = 0, bd_total = 0\<rparr>))"
proof -
  note hv = search_handler_valid [OF q len, of rt env]
  from rr have rq: "g = str_or (genre rq) None" "lmt = parseIntParam (limit rq) 20"
    "skip = js_mul (js_sub (parseIntParam (page rq) 1) (Some 1)) (parseIntParam (limit rq) 20)"
    by (auto simp: radioRequest_def)
  have a: "fst (search_handler rt env rq) = Inl (AppError ''Search failed'' 500)"
    if "typeParam rq = ''all'' \<or> typeParam rq = ''radio''"
       "radioFind env query g lmt skip = Inl e
         \<or> (\<exists>stations. radioFind env query g lmt skip = Inr stations) \<and> radioCount env query g = Inl e"
    using that unfolding hv by (auto simp: Let_def radio_branch_all [OF that(1)] rq)
  have b: "\<exists>d. fst (search_handler rt env rq) = Inr (Success d)
                 \<and> sd_results d = js_sort (sortFunction rt (sortByParam rq)) (map Radio (map radioItem stations))
                 \<and> sd_breakdown d = \<lparr>bd_movies = 0, bd_tv = 0, bd_radio = length stations, bd_total = n\<rparr>"
    if "typeParam rq = ''all''" "tmdbSearch env query (page rq) = Inl e"
       "radioFind env query g lmt skip = Inr stations" "radioCount env query g = Inr n"
    using that unfolding hv
    by (simp add: Let_def radio_branch_all rq tmdb_branch_def respond_results_all respond_breakdown
        empty_results_def year_filter_def sort_media_def split: option.splits)
  have c: "\<exists>d. search_handler rt env rq = (Inr (Success d), [TmdbSearch query (page rq)])
                 \<and> sd_results d = []
                 \<and> sd_breakdown d = \<lparr>bd_movies = 0, bd_tv = 0, bd_radio = 0, bd_total = 0\<rparr>"
    if "typeParam rq = ''movie'' \<or> typeParam rq = ''tv''" "tmdbSearch env query (page rq) = Inl e"
    using that unfolding hv
    by (auto simp: Let_def radio_branch_skipped tmdb_branch_def respond_breakdown
        empty_results_def year_filter_def sort_media_def respond_def allResults_def split: option.splits)
  from a b c show ?thesis by blast
qed

text \<open>
  The theorem at a store that is down, and at a provider that is down.
\<close>

theorem search_branch_failures_witness:
  "q (sampleQuery ''all'' ''popularity'') = Some ''star'' \<and> 2 \<le> length (trim ''star'')
   \<and> radioRequest (sampleQuery ''all'' ''popularity'') = (None, Some 2, Some 0)
   \<and> radioFind radioDownEnv ''star'' None (Some 2) (Some 0) = Inl (Error ''connection lost'')
   \<and> fst (search_handler sampleRuntime radioDownEnv (sampleQuery ''all'' ''popularity''))
       = Inl (AppError ''Search failed'' 500)
   \<and> tmdbSearch tmdbDownEnv ''star'' (Some ''1'') = Inl (Error ''TMDB API timeout - please try again later'')
   \<and> (\<exists>d. fst (search_handler sampleRuntime tmdbDownEnv (sampleQuery ''all'' ''popularity'')) = Inr (Success d)
         \<and> sd_breakdown d = \<lparr>bd_movies = 0, bd_tv = 0, bd_radio = 1, bd_total = 1\<rparr>)"
proof -
  note rq = sampleQuery_request [of "''all''" "''popularity''"]
  have f: "radioFind radioDownEnv ''star'' None (Some 2) (Some 0) = Inl (Error ''connection lost'')"
    by (simp add: radioDownEnv_def)
  have t: "tmdbSearch tmdbDownEnv ''star'' (Some ''1'') = Inl (Error ''TMDB API timeout - please try again later'')"
    "radioFind tmdbDownEnv ''star'' None (Some 2) (Some 0) = Inr [sampleStation]"
    "radioCount tmdbDownEnv ''star'' None = Inr 1"
    by (simp_all add: tmdbDownEnv_def)
  from search_branch_failures [OF rq(1) star_length rq(2), where env = radioDownEnv and e = "Error ''connection lost''"
         and rt = sampleRuntime] rq(3) f
  have a: "fst (search_handler sampleRuntime radioDownEnv (sampleQuery ''all'' ''popularity''))
       = Inl (AppError ''Search failed'' 500)"
    by simp
  from search_branch_failures [OF rq(1) star_length rq(2), where env = tmdbDownEnv
         and e = "Error ''TMDB API timeout - please try again later''" and rt = sampleRuntime
         and stations = "[sampleStation]" and n = 1] rq(3,5) t
  have b: "\<exists>d. fst (search_handler sampleRuntime tmdbDownEnv (sampleQuery ''all'' ''popularity'')) = Inr (Success d)
         \<and> sd_breakdown d = \<lparr>bd_movies = 0, bd_tv = 0, bd_radio = 1, bd_total = 1\<rparr>"
    by auto
  from rq star_length f t a b show ?thesis by simp
qed

subsection \<open>The total of the breakdown (C6)\<close>




subsection \<open>Sort order (C8)\<close>








section \<open>The radio directory adapter: cache keys\<close>

lemma runListing_eq:
  "runListing rb svc now now' l lmt =
     cachedListing svc now now' (listingKey l lmt) (listingFetch rb l lmt) lmt (listingMessage l)"
  by (cases l)
     (simp_all add: listingKey_def listingFetch_def listingMessage_def getPopularStations_def
        getStationsByCountry_def getStationsByGenre_def searchStations_def)

lemma digitChar_inj: "d < 10 \<Longrightarrow> d' < 10 \<Longrightarrow> digitChar d = digitChar d' \<longleftrightarrow> d = d'"
  unfolding digitChar_def by (subst nth_eq_iff_index_eq) simp_all

lemma digitChar_mem: "d < 10 \<Longrightarrow> digitChar d \<in> set ''0123456789''"
  unfolding digitChar_def by (rule nth_mem) simp

lemma digitsOf_nonempty: "digitsOf n \<noteq> []"
  by (subst digitsOf.simps) simp

lemma digitsOf_digits: "set (digitsOf n) \<subseteq> set ''0123456789''"
proof (induction n rule: digitsOf.induct)
  case (1 n)
  show ?case
  proof (cases "n < 10")
    case True
    then show ?thesis using digitChar_mem [of n] by (subst digitsOf.simps) simp
  next
    case False
    have "n mod 10 < 10" by simp
    from digitChar_mem [OF this] 1 [OF False] False show ?thesis
      by (subst digitsOf.simps) simp
  qed
qed

lemma digitsOf_inj: "digitsOf m = digitsOf n \<Longrightarrow> m = n"
proof (induction m arbitrary: n rule: digitsOf.induct)
  case (1 m)
  show ?case
  proof (cases "m < 10")
    case m: True
    show ?thesis
    proof (cases "n < 10")
      case True
      with m 1(2) show ?thesis
        by (simp add: digitsOf.simps [of m] digitsOf.simps [of n] digitChar_inj)
    next
      case False
      with m 1(2) digitsOf_nonempty [of "n div 10"] show ?thesis
        by (simp add: digitsOf.simps [of m] digitsOf.simps [of n])
    qed
  next
    case m: False
    show ?thesis
    proof (cases "n < 10")
      case True
      with m 1(2) digitsOf_nonempty [of "m div 10"] show ?thesis
        by (simp add: digitsOf.simps [of m] digitsOf.simps [of n])
    next
      case False
      with m 1(2) have eq: "digitsOf (m div 10) = digitsOf (n div 10)"
        "digitChar (m mod 10) = digitChar (n mod 10)"
        by (simp_all add: digitsOf.simps [of m] digitsOf.simps [of n])
      from 1(1) [OF m eq(1)] have "m div 10 = n div 10" .
      moreover from eq(2) have "m mod 10 = n mod 10" by (simp add: digitChar_inj)
      ultimately show ?thesis by (metis div_mult_mod_eq)
    qed
  qed
qed

lemma digitsOf_no_underscore: "CHR ''_'' \<notin> set (digitsOf n)"
proof
  assume "CHR ''_'' \<in> set (digitsOf n)"
  with digitsOf_digits [of n] have "CHR ''_'' \<in> set ''0123456789''" by blast
  then show False by simp
qed

lemma numToString_no_underscore: "CHR ''_'' \<notin> set (numToString lmt)"
proof (cases lmt)
  case None
  then show ?thesis by (simp add: numToString_def)
next
  case (Some i)
  with digitsOf_no_underscore [of "nat i"] digitsOf_no_underscore [of "nat (- i)"] show ?thesis
    by (simp add: numToString_def)
qed

lemma digitsOf_hd: "hd (digitsOf n) \<in> set ''0123456789''"
  using digitsOf_digits [of n] digitsOf_nonempty [of n] by (cases "digitsOf n") auto

lemma digitsOf_not_NaN: "digitsOf n \<noteq> ''NaN''"
proof
  assume "digitsOf n = ''NaN''"
  then have "hd (digitsOf n) = CHR ''N''" by simp
  with digitsOf_hd [of n] show False by simp
qed

lemma digitsOf_not_minus: "digitsOf n \<noteq> CHR ''-'' # cs"
proof
  assume "digitsOf n = CHR ''-'' # cs"
  then have "hd (digitsOf n) = CHR ''-''" by simp
  with digitsOf_hd [of n] show False by simp
qed

lemma numToString_inj:
  assumes eq: "numToString a = numToString b"
  shows "a = b"
proof (cases a)
  case None
  show ?thesis
  proof (cases b)
    case None
    with \<open>a = None\<close> show ?thesis by simp
  next
    case (Some j)
    with None eq digitsOf_not_NaN [of "nat j"] show ?thesis
      by (simp add: numToString_def split: if_splits)
  qed
next
  case (Some i)
  show ?thesis
  proof (cases b)
    case None
    with Some eq digitsOf_not_NaN [of "nat i"] show ?thesis
      by (simp add: numToString_def split: if_splits)
  next
    case b: (Some j)
    show ?thesis
    proof (cases "i < 0"; cases "j < 0")
      assume "i < 0" "j < 0"
      with eq Some b have "digitsOf (nat (- i)) = digitsOf (nat (- j))"
        by (simp add: numToString_def)
      then have "nat (- i) = nat (- j)" by (rule digitsOf_inj)
      with \<open>i < 0\<close> \<open>j < 0\<close> Some b show ?thesis by simp
    next
      assume "i < 0" "\<not> j < 0"
      with eq Some b digitsOf_not_minus [of "nat j" "digitsOf (nat (- i))"] show ?thesis
        by (simp add: numToString_def)
    next
      assume "\<not> i < 0" "j < 0"
      with eq Some b digitsOf_not_minus [of "nat i" "digitsOf (nat (- j))"] show ?thesis
        by (simp add: numToString_def)
    next
      assume "\<not> i < 0" "\<not> j < 0"
      with eq Some b have "digitsOf (nat i) = digitsOf (nat j)"
        by (simp add: numToString_def)
      then have "nat i = nat j" by (rule digitsOf_inj)
      with \<open>\<not> i < 0\<close> \<open>\<not> j < 0\<close> Some b show ?thesis by simp
    qed
  qed
qed

lemma suffix_after_underscore:
  assumes "a @ CHR ''_'' # s = b @ CHR ''_'' # t" "CHR ''_'' \<notin> set s" "CHR ''_'' \<notin> set t"
  shows "s = t"
proof -
  from assms(1) have "rev (a @ CHR ''_'' # s) = rev (b @ CHR ''_'' # t)" by simp
  then have "rev s @ CHR ''_'' # rev a = rev t @ CHR ''_'' # rev b" by simp
  then have "takeWhile (\<lambda>c. c \<noteq> CHR ''_'') (rev s @ CHR ''_'' # rev a)
           = takeWhile (\<lambda>c. c \<noteq> CHR ''_'') (rev t @ CHR ''_'' # rev b)" by simp
  moreover from assms(2) have "takeWhile (\<lambda>c. c \<noteq> CHR ''_'') (rev s @ CHR ''_'' # rev a) = rev s"
    by (subst takeWhile_append2) auto
  moreover from assms(3) have "takeWhile (\<lambda>c. c \<noteq> CHR ''_'') (rev t @ CHR ''_'' # rev b) = rev t"
    by (subst takeWhile_append2) auto
  ultimately have "rev s = rev t" by simp
  then show ?thesis by simp
qed

lemma listingKey_limit:
  assumes "listingKey l lmt = listingKey l' lmt'"
  shows "lmt = lmt'"
proof -
  note us = suffix_after_underscore [OF _ numToString_no_underscore numToString_no_underscore]
  from assms have "numToString lmt = numToString lmt'"
    by (cases l; cases l') (auto simp: listingKey_def dest: us)
  then show ?thesis by (rule numToString_inj)
qed

lemma listingKey_other:
  "listingKey l lmt \<noteq> ''station_details_'' @ x"
  "listingKey l lmt \<noteq> ''countries''" "listingKey l lmt \<noteq> ''genres''"
  by (cases l; simp add: listingKey_def)+

lemma listingKey_not_details: "listingKey l lmt \<noteq> CHR ''s'' # CHR ''t'' # r"
  by (cases l; simp add: listingKey_def)

section \<open>The radio directory adapter: the invariant of the cache\<close>

lemma servedStation_withQuality: "validStation st \<Longrightarrow> servedStation (withQuality st)"
  by (auto simp: validStation_def servedStation_def withQuality_def bitrate_gt_def split: option.splits)

lemma set_slice0: "set (slice0 xs e) \<subseteq> set xs"
  by (auto simp: slice0_def split: option.splits dest: in_set_takeD)

lemma length_slice0: "0 \<le> n \<Longrightarrow> int (length (slice0 xs (Some n))) \<le> n"
  by (simp add: slice0_def)

lemma fresh_good: "goodStations lmt (addStreamQuality (slice0 (filterValidStations sts) lmt))"
proof -
  have "validStation st" if "st \<in> set (slice0 (filterValidStations sts) lmt)" for st
    using that set_slice0 [of "filterValidStations sts" lmt] by (auto simp: filterValidStations_def)
  then show ?thesis
    by (auto simp: goodStations_def addStreamQuality_def servedStation_withQuality length_slice0)
qed

lemma cacheInv_empty: "cacheInv Map.empty"
  by (simp add: cacheInv_def)

lemma cacheInv_delete: "cacheInv c \<Longrightarrow> cacheInv (c(k := None))"
  by (simp add: cacheInv_def)

lemma cacheInv_sweep: "cacheInv c \<Longrightarrow> cacheInv (nc_sweep c now)"
  by (auto simp: cacheInv_def nc_sweep_def split: option.splits if_splits)

lemma cacheInv_get: "cacheInv c \<Longrightarrow> cacheInv (snd (nc_get c now k))"
  by (auto simp: nc_get_def cacheInv_delete split: option.splits)

lemma nc_get_Some: "nc_get c now k = (Some v, c') \<Longrightarrow> \<exists>e. c k = Some e \<and> nc_value e = v"
  by (auto simp: nc_get_def split: option.splits if_splits)

lemma cacheInv_set_listing:
  assumes "cacheInv c" "goodStations lmt qs"
  shows "cacheInv (nc_set c now (listingKey l lmt) (Stations qs) ttl)"
  unfolding cacheInv_def
proof (intro allI impI)
  fix l' lmt' e
  assume h: "nc_set c now (listingKey l lmt) (Stations qs) ttl (listingKey l' lmt') = Some e"
  show "\<exists>qs'. nc_value e = Stations qs' \<and> goodStations lmt' qs'"
  proof (cases "listingKey l' lmt' = listingKey l lmt")
    case True
    then have "lmt' = lmt" by (rule listingKey_limit)
    with h True assms(2) show ?thesis by (auto simp: nc_set_def)
  next
    case False
    with h assms(1) show ?thesis by (auto simp: nc_set_def cacheInv_def)
  qed
qed

lemma cacheInv_set_other:
  assumes "cacheInv c" "\<And>l lmt. listingKey l lmt \<noteq> k"
  shows "cacheInv (nc_set c now k v ttl)"
  using assms by (auto simp: cacheInv_def nc_set_def)

lemma cachedListing_inv:
  assumes "cacheInv (nodeCache svc)"
  shows "cacheInv (nodeCache (snd (cachedListing svc now now' (listingKey l lmt) fetched lmt msg)))"
proof -
  note g = cacheInv_get [OF assms, of now "listingKey l lmt"]
  show ?thesis
    using assms g cacheInv_set_listing [OF g fresh_good, where now = now' and l = l and ttl = stdTTL]
    by (auto simp: cachedListing_def Let_def split: prod.splits sum.splits option.splits)
qed

lemma cachedListing_good:
  assumes inv: "cacheInv (nodeCache svc)"
      and run: "cachedListing svc now now' (listingKey l lmt) fetched lmt msg = (Inr v, svc')"
  shows "\<exists>qs. v = Stations qs \<and> goodStations lmt qs"
proof -
  from run consider
      (hit) c where "nc_get (nodeCache svc) now (listingKey l lmt) = (Some v, c)"
    | (miss) sts where "v = Stations (addStreamQuality (slice0 (filterValidStations sts) lmt))"
    by (auto simp: cachedListing_def Let_def split: prod.splits sum.splits option.splits)
  then show ?thesis
  proof cases
    case hit
    from nc_get_Some [OF hit] inv show ?thesis by (auto simp: cacheInv_def)
  next
    case miss
    with fresh_good show ?thesis by blast
  qed
qed

lemma details_inv:
  "cacheInv (nodeCache svc) \<Longrightarrow> cacheInv (nodeCache (snd (getStationDetails rb svc now now' stationId)))"
  using cacheInv_get [of "nodeCache svc" now "''station_details_'' @ stationId"]
  by (auto simp: getStationDetails_def Let_def listingKey_not_details
      intro!: cacheInv_set_other split: prod.splits sum.splits option.splits list.splits)

lemma countries_inv:
  "cacheInv (nodeCache svc) \<Longrightarrow> cacheInv (nodeCache (snd (getCountries rb svc now now')))"
  using cacheInv_get [of "nodeCache svc" now "''countries''"]
  by (auto simp: getCountries_def Let_def listingKey_other
      intro!: cacheInv_set_other split: prod.splits sum.splits option.splits)

lemma genres_inv:
  "cacheInv (nodeCache svc) \<Longrightarrow> cacheInv (nodeCache (snd (getGenres rb svc now now')))"
  using cacheInv_get [of "nodeCache svc" now "''genres''"]
  by (auto simp: getGenres_def Let_def listingKey_other
      intro!: cacheInv_set_other split: prod.splits sum.splits option.splits)

lemma click_inv:
  "cacheInv (nodeCache svc) \<Longrightarrow> cacheInv (nodeCache (snd (clickStation rb svc now stationId)))"
  by (auto simp: clickStation_def split: prod.splits sum.splits)

lemma reachable_inv: "reachable svc \<Longrightarrow> cacheInv (nodeCache svc)"
proof (induction rule: reachable.induct)
  case (initial t0)
  show ?case by (simp add: cacheInv_empty)
next
  case (listed svc rb now now' l lmt)
  then show ?case by (simp add: runListing_eq cachedListing_inv)
next
  case (cleared svc)
  show ?case by (simp add: clearCache_def flushAll_def cacheInv_empty)
qed (simp_all add: details_inv countries_inv genres_inv click_inv cacheInv_sweep)

lemma reachable_initialService: "reachable initialService"
  unfolding initialService_def by (rule reachable.initial)

text \<open>
  Evaluation of the adapter on the sample data.
\<close>

lemmas radio_eval =
  getPopularStations_def cachedListing_def checkRateLimit_def maxRequests_def resetInterval_def
  nc_get_def nc_set_def nc_expired_def stdTTL_def initialService_def sampleDirectory_def
  downDirectory_def threeStations_def sampleStationOf_def filterValidStations_def validStation_def
  addStreamQuality_def withQuality_def bitrate_gt_def slice0_def trim_def isWhiteSpace_def
  numToString_def digitsOf.simps digitChar_def byClicks_def noFilter_def js_mul_def stationsOf_def
  Let_def

lemma popular_two_fst:
  "fst (runListing sampleDirectory initialService 0 0 Popular (Some 2))
     = Inr (Stations (map withQuality (take 2 threeStations)))"
  by (simp add: radio_eval)

lemma popular_two_eval:
  "\<exists>svc'. runListing sampleDirectory initialService 0 0 Popular (Some 2)
     = (Inr (Stations (map withQuality (take 2 threeStations))), svc')"
  using popular_two_fst
  by (cases "runListing sampleDirectory initialService 0 0 Popular (Some 2)") simp

subsection \<open>Listed stations (C9)\<close>

text \<open>
  Claim C9 as stated fails in its last part. \<open>getPopularStations(-1)\<close>, which
  \<open>GET /api/content/category/radio?featured=true&limit=-1\<close> calls, returns two of the
  three valid stations the directory sent: \<open>slice(0, -1)\<close> drops the last one.
\<close>

theorem listing_negative_limit_counterexample:
  "map_option length (stationsOf (fst (getPopularStations sampleDirectory initialService 0 0 (Some (- 1)))))
     = Some 2"
  by (simp add: radio_eval)

text \<open>
  Claim C9, amended. In every state the service can reach, a listing method that
  returns, returns a list of stations each of which has a non-empty stream URL that is
  not \<open>'null'\<close> and does not contain \<open>'null'\<close>, the same URL as \<open>streamUrl\<close>, and the
  quality \<open>high\<close> exactly above 128, \<open>medium\<close> exactly above 64 and up to 128, \<open>low\<close>
  otherwise; when the limit is a non-negative integer the list has at most that many
  stations.
\<close>

theorem listing_returns_served_stations:
  assumes "reachable svc" and "runListing rb svc now now' l lmt = (Inr v, svc')"
  shows "\<exists>qs. v = Stations qs \<and> (\<forall>s \<in> set qs. servedStation s)
            \<and> (\<forall>n. lmt = Some n \<and> 0 \<le> n \<longrightarrow> int (length qs) \<le> n)"
  using cachedListing_good [OF reachable_inv [OF assms(1)] assms(2) [unfolded runListing_eq]]
  by (simp add: goodStations_def)

text \<open>
  The theorem at the first call of \<open>getPopularStations(2)\<close>.
\<close>

theorem listing_returns_served_stations_witness:
  "reachable initialService
   \<and> (\<exists>v svc' qs. runListing sampleDirectory initialService 0 0 Popular (Some 2) = (Inr v, svc')
         \<and> v = Stations qs \<and> list_all servedStation qs \<and> int (length qs) \<le> 2
         \<and> map quality qs = [''high'', ''medium''])"
proof -
  from popular_two_eval obtain svc' where
    run: "runListing sampleDirectory initialService 0 0 Popular (Some 2)
            = (Inr (Stations (map withQuality (take 2 threeStations))), svc')"
    by blast
  from listing_returns_served_stations [OF reachable_initialService run]
  obtain qs where qs: "Stations (map withQuality (take 2 threeStations)) = Stations qs"
    and served: "\<forall>s \<in> set qs. servedStation s"
    and len: "\<forall>n. Some 2 = Some n \<and> 0 \<le> n \<longrightarrow> int (length qs) \<le> n"
    by blast
  from qs have eq: "map withQuality (take 2 threeStations) = qs" by (simp only: cache_value.inject)
  from served have s: "list_all servedStation (map withQuality (take 2 threeStations))"
    unfolding eq by (simp add: list_all_iff)
  from len have l: "int (length (map withQuality (take 2 threeStations))) \<le> 2"
    unfolding eq by simp
  have q: "map quality (map withQuality (take 2 threeStations)) = [''high'', ''medium'']"
    by (simp add: threeStations_def sampleStationOf_def withQuality_def bitrate_gt_def)
  show ?thesis
  proof (intro conjI exI)
    show "reachable initialService" by (rule reachable_initialService)
    show "runListing sampleDirectory initialService 0 0 Popular (Some 2)
            = (Inr (Stations (map withQuality (take 2 threeStations))), svc')" by (rule run)
    show "Stations (map withQuality (take 2 threeStations)) = Stations (map withQuality (take 2 threeStations))"
      by (rule refl)
    show "list_all servedStation (map withQuality (take 2 threeStations))" by (rule s)
    show "int (length (map withQuality (take 2 threeStations))) \<le> 2" by (rule l)
    show "map quality (map withQuality (take 2 threeStations)) = [''high'', ''medium'']" by (rule q)
  qed
qed

section \<open>Cached fetches (C3)\<close>

lemma getCachedOrFetch_fresh:
  "cache cacheKey = Some e \<Longrightarrow> now - timestamp e < cacheTimeout \<Longrightarrow>
   getCachedOrFetch cache now now' cacheKey fetchFunction w = (Inr (data e), cache, w)"
  by (simp add: getCachedOrFetch_def)

lemma getCachedOrFetch_refresh:
  assumes "cache cacheKey = None \<or> (\<exists>e. cache cacheKey = Some e \<and> cacheTimeout \<le> now - timestamp e)"
  shows "getCachedOrFetch cache now now' cacheKey fetchFunction w
           = tryFetch cache now' cacheKey fetchFunction (cache cacheKey) w"
  using assms by (auto simp: getCachedOrFetch_def)

lemma listing_failure:
  assumes "listingFetch rb l lmt = Inl e" "fst (nc_get (nodeCache svc) now (listingKey l lmt)) = None"
  shows "fst (runListing rb svc now now' l lmt) = Inl (Error (listingMessage l))"
  using assms
  by (auto simp: runListing_eq cachedListing_def split: prod.splits sum.splits option.splits)

lemma details_failure:
  assumes "rb_getStations rb (noFilter\<lparr>f_stationuuid := Some stationId\<rparr>) = Inl e"
          "fst (nc_get (nodeCache svc) now (''station_details_'' @ stationId)) = None"
  shows "fst (getStationDetails rb svc now now' stationId)
           = Inl (Error (''Failed to fetch station details for '' @ stationId))"
  using assms
  by (auto simp: getStationDetails_def Let_def split: prod.splits sum.splits option.splits)

lemma countries_failure:
  assumes "rb_getCountries rb = Inl e" "fst (nc_get (nodeCache svc) now ''countries'') = None"
  shows "fst (getCountries rb svc now now') = Inl (Error ''Failed to fetch available countries'')"
  using assms
  by (auto simp: getCountries_def Let_def split: prod.splits sum.splits option.splits)

lemma genres_failure:
  assumes "rb_getTags rb = Inl e" "fst (nc_get (nodeCache svc) now ''genres'') = None"
  shows "fst (getGenres rb svc now now') = Inl (Error ''Failed to fetch available genres'')"
  using assms
  by (auto simp: getGenres_def Let_def split: prod.splits sum.splits option.splits)

lemma nc_get_expired:
  "c k = Some e \<Longrightarrow> nc_expired e now \<Longrightarrow> nc_get c now k = (None, c(k := None))"
  by (simp add: nc_get_def)

text \<open>
  Claim C3 as stated fails for the radio directory adapter. A first call stores the
  popular stations at time 0; they expire at 300000. At 400000 the directory is down:
  the second call throws, and the stored list is gone from the cache.
\<close>

theorem radio_stale_counterexample:
  "map_option nc_expires
      (nodeCache (snd (getPopularStations sampleDirectory initialService 0 0 (Some 10))) ''popular_stations_10'')
     = Some 300000
   \<and> fst (getPopularStations downDirectory
            (snd (getPopularStations sampleDirectory initialService 0 0 (Some 10))) 400000 400000 (Some 10))
     = Inl (Error ''Failed to fetch popular radio stations'')
   \<and> nodeCache (snd (getPopularStations downDirectory
            (snd (getPopularStations sampleDirectory initialService 0 0 (Some 10))) 400000 400000 (Some 10)))
        ''popular_stations_10'' = None"
  by (simp add: radio_eval)

text \<open>
  Claim C3, amended. For \<open>TMDBService.getCachedOrFetch\<close>: a fresh entry is returned
  without a fetch; on a miss or a stale entry the fetch is attempted; when it succeeds
  its value is returned and stored; when it fails the cache is left as it is, the stored
  value is returned if there is one, however old, and the failure propagates only when
  there is none. The radio directory adapter does not fall back: its cache drops an
  expired entry when it is read, and each cached method, when the key misses and the
  directory fails, throws its own error.
\<close>

theorem cached_fetch_fallback:
  fixes cache :: "'v tmdb_cache" and fetchFunction :: "'w \<Rightarrow> (js_error + 'v) \<times> 'w"
  shows
    "(\<forall>e. cache cacheKey = Some e \<and> now - timestamp e < cacheTimeout \<longrightarrow>
         getCachedOrFetch cache now now' cacheKey fetchFunction w = (Inr (data e), cache, w))
   \<and> (cache cacheKey = None \<or> (\<exists>e. cache cacheKey = Some e \<and> cacheTimeout \<le> now - timestamp e) \<longrightarrow>
         snd (snd (getCachedOrFetch cache now now' cacheKey fetchFunction w)) = snd (fetchFunction w)
       \<and> (\<forall>d. fst (fetchFunction w) = Inr d \<longrightarrow>
              fst (getCachedOrFetch cache now now' cacheKey fetchFunction w) = Inr d
            \<and> fst (snd (getCachedOrFetch cache now now' cacheKey fetchFunction w))
                = cache(cacheKey \<mapsto> \<lparr>data = d, timestamp = now'\<rparr>))
       \<and> (\<forall>err. fst (fetchFunction w) = Inl err \<longrightarrow>
              fst (snd (getCachedOrFetch cache now now' cacheKey fetchFunction w)) = cache
            \<and> fst (getCachedOrFetch cache now now' cacheKey fetchFunction w)
                = (case cache cacheKey of Some e \<Rightarrow> Inr (data e) | None \<Rightarrow> Inl err)))
   \<and> (\<forall>c k e t. c k = Some e \<and> nc_expired e t \<longrightarrow> nc_get c t k = (None :: cache_value option, c(k := None)))
   \<and> (\<forall>rb svc t t' l lmt e.
         listingFetch rb l lmt = Inl e \<and> fst (nc_get (nodeCache svc) t (listingKey l lmt)) = None \<longrightarrow>
         fst (runListing rb svc t t' l lmt) = Inl (Error (listingMessage l)))
   \<and> (\<forall>rb svc t t' stationId e.
         rb_getStations rb (noFilter\<lparr>f_stationuuid := Some stationId\<rparr>) = Inl e
         \<and> fst (nc_get (nodeCache svc) t (''station_details_'' @ stationId)) = None \<longrightarrow>
         fst (getStationDetails rb svc t t' stationId)
           = Inl (Error (''Failed to fetch station details for '' @ stationId)))
   \<and> (\<forall>rb svc t t' e.
         rb_getCountries rb = Inl e \<and> fst (nc_get (nodeCache svc) t ''countries'') = None \<longrightarrow>
         fst (getCountries rb svc t t') = Inl (Error ''Failed to fetch available countries''))
   \<and> (\<forall>rb svc t t' e.
         rb_getTags rb = Inl e \<and> fst (nc_get (nodeCache svc) t ''genres'') = None \<longrightarrow>
         fst (getGenres rb svc t t') = Inl (Error ''Failed to fetch available genres''))"
proof -
  have refresh: "snd (snd (getCachedOrFetch cache now now' cacheKey fetchFunction w)) = snd (fetchFunction w)
       \<and> (\<forall>d. fst (fetchFunction w) = Inr d \<longrightarrow>
              fst (getCachedOrFetch cache now now' cacheKey fetchFunction w) = Inr d
            \<and> fst (snd (getCachedOrFetch cache now now' cacheKey fetchFunction w))
                = cache(cacheKey \<mapsto> \<lparr>data = d, timestamp = now'\<rparr>))
       \<and> (\<forall>err. fst (fetchFunction w) = Inl err \<longrightarrow>
              fst (snd (getCachedOrFetch cache now now' cacheKey fetchFunction w)) = cache
            \<and> fst (getCachedOrFetch cache now now' cacheKey fetchFunction w)
                = (case cache cacheKey of Some e \<Rightarrow> Inr (data e) | None \<Rightarrow> Inl err))"
    if "cache cacheKey = None \<or> (\<exists>e. cache cacheKey = Some e \<and> cacheTimeout \<le> now - timestamp e)"
    unfolding getCachedOrFetch_refresh [of cache cacheKey now now' fetchFunction w, OF that]
    by (cases "fetchFunction w") (auto simp: tryFetch_def split: sum.splits option.splits)
  have fresh: "\<forall>e. cache cacheKey = Some e \<and> now - timestamp e < cacheTimeout \<longrightarrow>
         getCachedOrFetch cache now now' cacheKey fetchFunction w = (Inr (data e), cache, w)"
    by (simp add: getCachedOrFetch_fresh)
  have dropped: "\<forall>c k e t. c k = Some e \<and> nc_expired e t \<longrightarrow>
      nc_get c t k = (None :: cache_value option, c(k := None))"
    by (simp add: nc_get_expired)
  have radio: "\<forall>rb svc t t' l lmt e.
         listingFetch rb l lmt = Inl e \<and> fst (nc_get (nodeCache svc) t (listingKey l lmt)) = None \<longrightarrow>
         fst (runListing rb svc t t' l lmt) = Inl (Error (listingMessage l))"
    using listing_failure by blast
  have det: "\<forall>rb svc t t' stationId e.
         rb_getStations rb (noFilter\<lparr>f_stationuuid := Some stationId\<rparr>) = Inl e
         \<and> fst (nc_get (nodeCache svc) t (''station_details_'' @ stationId)) = None \<longrightarrow>
         fst (getStationDetails rb svc t t' stationId)
           = Inl (Error (''Failed to fetch station details for '' @ stationId))"
    using details_failure by blast
  have cou: "\<forall>rb svc t t' e.
         rb_getCountries rb = Inl e \<and> fst (nc_get (nodeCache svc) t ''countries'') = None \<longrightarrow>
         fst (getCountries rb svc t t') = Inl (Error ''Failed to fetch available countries'')"
    using countries_failure by blast
  have gen: "\<forall>rb svc t t' e.
         rb_getTags rb = Inl e \<and> fst (nc_get (nodeCache svc) t ''genres'') = None \<longrightarrow>
         fst (getGenres rb svc t t') = Inl (Error ''Failed to fetch available genres'')"
    using genres_failure by blast
  from fresh refresh dropped radio det cou gen show ?thesis by (intro conjI impI) blast+
qed

text \<open>
  The theorem at a stale entry and a failing fetch.
\<close>

theorem cached_fetch_fallback_witness:
  "staleCache (cacheKeyOf (SearchMulti ''star'' (Some ''1''))) = Some \<lparr>data = 5, timestamp = 0\<rparr>
   \<and> cacheTimeout \<le> 400000 - timestamp \<lparr>data = 5 :: nat, timestamp = 0\<rparr>
   \<and> failingFetch 0 = (Inl (Error ''TMDB API timeout - please try again later''), 1)
   \<and> cachedMethod staleCache 400000 400001 (SearchMulti ''star'' (Some ''1'')) (\<lambda>m. failingFetch) 0
       = (Inr 5, staleCache, 1)"
proof -
  have k: "cacheKeyOf (SearchMulti ''star'' (Some ''1'')) = ''search_star_1_false''"
    by (simp add: pageStr_def)
  have c: "staleCache ''search_star_1_false'' = Some \<lparr>data = 5, timestamp = 0\<rparr>"
    by (simp add: staleCache_def)
  have t: "cacheTimeout \<le> 400000 - timestamp \<lparr>data = 5 :: nat, timestamp = 0\<rparr>"
    by (simp add: cacheTimeout_def)
  have f: "failingFetch 0 = (Inl (Error ''TMDB API timeout - please try again later''), 1)"
    by (simp add: failingFetch_def)
  from c t have stale: "staleCache ''search_star_1_false'' = None
      \<or> (\<exists>e. staleCache ''search_star_1_false'' = Some e \<and> cacheTimeout \<le> 400000 - timestamp e)"
    by simp
  note refresh = cached_fetch_fallback [of staleCache "''search_star_1_false''" 400000 400001 failingFetch 0,
      THEN conjunct2, THEN conjunct1, rule_format, OF stale]
  from refresh f c
  have "snd (snd (getCachedOrFetch staleCache 400000 400001 ''search_star_1_false'' failingFetch 0)) = 1"
    "fst (snd (getCachedOrFetch staleCache 400000 400001 ''search_star_1_false'' failingFetch 0)) = staleCache"
    "fst (getCachedOrFetch staleCache 400000 400001 ''search_star_1_false'' failingFetch 0) = Inr 5"
    by simp_all
  then have "getCachedOrFetch staleCache 400000 400001 ''search_star_1_false'' failingFetch 0
       = (Inr 5, staleCache, 1)"
    by (metis prod.collapse)
  then have "cachedMethod staleCache 400000 400001 (SearchMulti ''star'' (Some ''1'')) (\<lambda>m. failingFetch) 0
       = (Inr 5, staleCache, 1)"
    by (simp only: cachedMethod_def k)
  with c t f k show ?thesis by simp
qed

section \<open>Content resolution: properties\<close>

lemmas content_eval =
  content_handler_def resolveTmdb_def refetch_def serveDocument_def fetchAndPersist_def findOne_def
  matches_def needsUpdate_def fail500_def sampleDoc_def sampleState_def sampleUser_def
  providerDown_def historyDown_def movieRequest_def Let_def

subsection \<open>Type validation (C4)\<close>

text \<open>
  Claim C4. A request whose type is none of \<open>movie\<close>, \<open>tv\<close>, \<open>radio\<close> is answered
  with \<open>AppError('Invalid content type', 400)\<close>; the handler has made no call, to the
  network or to the store, and the state is as it was.
\<close>

theorem invalid_type_rejected:
  assumes "r_type rq \<noteq> ''movie''" "r_type rq \<noteq> ''tv''" "r_type rq \<noteq> ''radio''"
  shows "content_handler env s rq = (Inl (AppError ''Invalid content type'' 400), s, [])"
  using assms by (simp add: content_handler_def)

text \<open>
  The theorem at \<open>podcast\<close>.
\<close>

theorem invalid_type_rejected_witness:
  "r_type ((movieRequest None)\<lparr>r_type := ''podcast''\<rparr>) = ''podcast''
   \<and> content_handler (providerDown 0) sampleState ((movieRequest None)\<lparr>r_type := ''podcast''\<rparr>)
       = (Inl (AppError ''Invalid content type'' 400), sampleState, [])"
  using invalid_type_rejected [of "(movieRequest None)\<lparr>r_type := ''podcast''\<rparr>" "providerDown 0" sampleState]
  by simp

subsection \<open>A failing provider (C1)\<close>

text \<open>
  Claim C1 as stated fails. The store holds the movie 550, expired at 1000. At 2000
  the provider times out: the handler answers with status 500, not with the
  document.
\<close>

theorem stale_document_counterexample:
  "findOne (contents sampleState) ''550'' ''movie'' = Some sampleDoc
   \<and> needsUpdate sampleDoc (clock (providerDown 2000))
   \<and> content_handler (providerDown 2000) sampleState (movieRequest None)
       = (Inl (AppError ''Failed to fetch movie details'' 500), sampleState,
          [CallFindOne ''550'' ''movie'', CallGetMovieDetails ''550''])"
  by (simp add: content_eval)

text \<open>
  Claim C1, amended. For \<open>movie\<close> and \<open>tv\<close>, when the store's lookup succeeds. A
  document that is found and has not expired is served without a call to the provider:
  it is returned, its view counter incremented, when saving the counter succeeds and,
  for a logged-in caller, saving the watch history succeeds as well; when either save
  fails the handler answers with status 500. When no document is found, or the one
  found has expired, and the provider's fetch fails, the handler answers with status 500
  whether or not a document exists, and the store is unchanged. When the lookup itself
  fails the handler answers with status 500.
\<close>

theorem resolve_fetch_failure:
  assumes ty: "r_type rq = ''movie'' \<or> r_type rq = ''tv''"
  shows "(\<forall>d. storeFailure env FindOne = None
              \<and> findOne (contents s) (r_id rq) (r_type rq) = Some d \<and> \<not> needsUpdate d (clock env) \<longrightarrow>
            upstreamCall rq \<notin> set (snd (snd (content_handler env s rq)))
            \<and> (\<forall>e. storeFailure env SaveContent = Some e \<longrightarrow>
                  content_handler env s rq =
                    (Inl (AppError (''Failed to fetch '' @ r_type rq @ '' details'') 500), s,
                     [CallFindOne (r_id rq) (r_type rq), CallSaveContent (r_id rq)]))
            \<and> (storeFailure env SaveContent = None \<and> r_user rq = None \<longrightarrow>
                  content_handler env s rq =
                    (Inr (Document (d\<lparr>views := views d + 1\<rparr>)),
                     s\<lparr>contents := updateFirst (matches (r_id rq) (r_type rq))
                                      (\<lambda>x. d\<lparr>views := views d + 1\<rparr>) (contents s)\<rparr>,
                     [CallFindOne (r_id rq) (r_type rq), CallSaveContent (r_id rq)]))
            \<and> (\<forall>user. storeFailure env SaveContent = None \<and> r_user rq = Some user
                        \<and> storeFailure env SaveUser = None \<longrightarrow>
                  content_handler env s rq =
                    (Inr (Document (d\<lparr>views := views d + 1\<rparr>)),
                     s\<lparr>contents := updateFirst (matches (r_id rq) (r_type rq))
                                      (\<lambda>x. d\<lparr>views := views d + 1\<rparr>) (contents s),
                       users := (users s)(userId user \<mapsto>
                                  addToWatchHistory user
                                    (historyEntry rq (Document (d\<lparr>views := views d + 1\<rparr>))))\<rparr>,
                     [CallFindOne (r_id rq) (r_type rq), CallSaveContent (r_id rq),
                      CallSaveUser (userId user)]))
            \<and> (\<forall>user e. storeFailure env SaveContent = None \<and> r_user rq = Some user
                        \<and> storeFailure env SaveUser = Some e \<longrightarrow>
                  content_handler env s rq =
                    (Inl (AppError (''Failed to fetch '' @ r_type rq @ '' details'') 500),
                     s\<lparr>contents := updateFirst (matches (r_id rq) (r_type rq))
                                      (\<lambda>x. d\<lparr>views := views d + 1\<rparr>) (contents s)\<rparr>,
                     [CallFindOne (r_id rq) (r_type rq), CallSaveContent (r_id rq),
                      CallSaveUser (userId user)])))
       \<and> (\<forall>e. storeFailure env FindOne = None
              \<and> (findOne (contents s) (r_id rq) (r_type rq) = None
                  \<or> (\<exists>d. findOne (contents s) (r_id rq) (r_type rq) = Some d \<and> needsUpdate d (clock env)))
              \<and> upstreamDetails env rq = Inl e \<longrightarrow>
            content_handler env s rq =
              (Inl (AppError (''Failed to fetch '' @ r_type rq @ '' details'') 500), s,
               [CallFindOne (r_id rq) (r_type rq), upstreamCall rq]))
       \<and> (\<forall>e. storeFailure env FindOne = Some e \<longrightarrow>
            content_handler env s rq =
              (Inl (AppError (''Failed to fetch '' @ r_type rq @ '' details'') 500), s,
               [CallFindOne (r_id rq) (r_type rq)]))"
proof -
  have fresh: "upstreamCall rq \<notin> set (snd (snd (content_handler env s rq)))
            \<and> (\<forall>e. storeFailure env SaveContent = Some e \<longrightarrow>
                  content_handler env s rq =
                    (Inl (AppError (''Failed to fetch '' @ r_type rq @ '' details'') 500), s,
                     [CallFindOne (r_id rq) (r_type rq), CallSaveContent (r_id rq)]))
            \<and> (storeFailure env SaveContent = None \<and> r_user rq = None \<longrightarrow>
                  content_handler env s rq =
                    (Inr (Document (d\<lparr>views := views d + 1\<rparr>)),
                     s\<lparr>contents := updateFirst (matches (r_id rq) (r_type rq))
                                      (\<lambda>x. d\<lparr>views := views d + 1\<rparr>) (contents s)\<rparr>,
                     [CallFindOne (r_id rq) (r_type rq), CallSaveContent (r_id rq)]))
            \<and> (\<forall>user. storeFailure env SaveContent = None \<and> r_user rq = Some user
                        \<and> storeFailure env SaveUser = None \<longrightarrow>
                  content_handler env s rq =
                    (Inr (Document (d\<lparr>views := views d + 1\<rparr>)),
                     s\<lparr>contents := updateFirst (matches (r_id rq) (r_type rq))
                                      (\<lambda>x. d\<lparr>views := views d + 1\<rparr>) (contents s),
                       users := (users s)(userId user \<mapsto>
                                  addToWatchHistory user
                                    (historyEntry rq (Document (d\<lparr>views := views d + 1\<rparr>))))\<rparr>,
                     [CallFindOne (r_id rq) (r_type rq), CallSaveContent (r_id rq),
                      CallSaveUser (userId user)]))
            \<and> (\<forall>user e. storeFailure env SaveContent = None \<and> r_user rq = Some user
                        \<and> storeFailure env SaveUser = Some e \<longrightarrow>
                  content_handler env s rq =
                    (Inl (AppError (''Failed to fetch '' @ r_type rq @ '' details'') 500),
                     s\<lparr>contents := updateFirst (matches (r_id rq) (r_type rq))
                                      (\<lambda>x. d\<lparr>views := views d + 1\<rparr>) (contents s)\<rparr>,
                     [CallFindOne (r_id rq) (r_type rq), CallSaveContent (r_id rq),
                      CallSaveUser (userId user)]))"
    if f: "storeFailure env FindOne = None"
      and d: "findOne (contents s) (r_id rq) (r_type rq) = Some d" "\<not> needsUpdate d (clock env)"
    for d
  proof -
    from ty f d have r: "resolveTmdb env s (r_type rq) (r_id rq) = serveDocument env s (r_type rq) (r_id rq) d"
      by (simp add: resolveTmdb_def)
    from ty have h: "content_handler env s rq =
        (case serveDocument env s (r_type rq) (r_id rq) d of
           (Inl e, s1, calls) \<Rightarrow> (Inl (fail500 (r_type rq)), s1, calls)
         | (Inr c, s1, calls) \<Rightarrow>
             (case r_user rq of
                None \<Rightarrow> (Inr c, s1, calls)
              | Some user \<Rightarrow>
                  (case storeFailure env SaveUser of
                     Some e \<Rightarrow> (Inl (fail500 (r_type rq)), s1, calls @ [CallSaveUser (userId user)])
                   | None \<Rightarrow>
                       (Inr c,
                        s1\<lparr>users := (users s1)(userId user \<mapsto>
                               addToWatchHistory user
                                 \<lparr> contentId = r_id rq, contentType = r_type rq,
                                   he_title = titleOf c, he_poster = posterOf c \<rparr>)\<rparr>,
                        calls @ [CallSaveUser (userId user)]))))"
      using r by (auto simp: content_handler_def Let_def)
    show ?thesis
      unfolding h
      by (auto simp: serveDocument_def fail500_def upstreamCall_def historyEntry_def
          split: option.splits)
  qed
  have failing: "content_handler env s rq =
              (Inl (AppError (''Failed to fetch '' @ r_type rq @ '' details'') 500), s,
               [CallFindOne (r_id rq) (r_type rq), upstreamCall rq])"
    if "storeFailure env FindOne = None"
      "findOne (contents s) (r_id rq) (r_type rq) = None
         \<or> (\<exists>d. findOne (contents s) (r_id rq) (r_type rq) = Some d \<and> needsUpdate d (clock env))"
      "upstreamDetails env rq = Inl e" for e
    using ty that
    by (auto simp: content_handler_def resolveTmdb_def refetch_def
        fetchAndPersist_def fail500_def upstreamDetails_def upstreamCall_def Let_def)
  have lookup: "content_handler env s rq =
              (Inl (AppError (''Failed to fetch '' @ r_type rq @ '' details'') 500), s,
               [CallFindOne (r_id rq) (r_type rq)])"
    if "storeFailure env FindOne = Some e" for e
    using ty that by (auto simp: content_handler_def resolveTmdb_def fail500_def Let_def)
  show ?thesis
  proof (intro conjI allI impI)
    fix d
    assume a: "storeFailure env FindOne = None
              \<and> findOne (contents s) (r_id rq) (r_type rq) = Some d \<and> \<not> needsUpdate d (clock env)"
    note fr = fresh [of d, OF a [THEN conjunct1] a [THEN conjunct2, THEN conjunct1]
        a [THEN conjunct2, THEN conjunct2]]
    show "upstreamCall rq \<notin> set (snd (snd (content_handler env s rq)))"
      by (rule fr [THEN conjunct1])
    {
      fix e assume "storeFailure env SaveContent = Some e"
      with fr show "content_handler env s rq =
                    (Inl (AppError (''Failed to fetch '' @ r_type rq @ '' details'') 500), s,
                     [CallFindOne (r_id rq) (r_type rq), CallSaveContent (r_id rq)])"
        by simp
    }
    {
      assume "storeFailure env SaveContent = None \<and> r_user rq = None"
      with fr show "content_handler env s rq =
                    (Inr (Document (d\<lparr>views := views d + 1\<rparr>)),
                     s\<lparr>contents := updateFirst (matches (r_id rq) (r_type rq))
                                      (\<lambda>x. d\<lparr>views := views d + 1\<rparr>) (contents s)\<rparr>,
                     [CallFindOne (r_id rq) (r_type rq), CallSaveContent (r_id rq)])"
        by simp
    }
    {
      fix user
      assume "storeFailure env SaveContent = None \<and> r_user rq = Some user
                        \<and> storeFailure env SaveUser = None"
      with fr show "content_handler env s rq =
                    (Inr (Document (d\<lparr>views := views d + 1\<rparr>)),
                     s\<lparr>contents := updateFirst (matches (r_id rq) (r_type rq))
                                      (\<lambda>x. d\<lparr>views := views d + 1\<rparr>) (contents s),
                       users := (users s)(userId user \<mapsto>
                                  addToWatchHistory user
                                    (historyEntry rq (Document (d\<lparr>views := views d + 1\<rparr>))))\<rparr>,
                     [CallFindOne (r_id rq) (r_type rq), CallSaveContent (r_id rq),
                      CallSaveUser (userId user)])"
        by simp
    }
    {
      fix user e
      assume "storeFailure env SaveContent = None \<and> r_user rq = Some user
                        \<and> storeFailure env SaveUser = Some e"
      with fr show "content_handler env s rq =
                    (Inl (AppError (''Failed to fetch '' @ r_type rq @ '' details'') 500),
                     s\<lparr>contents := updateFirst (matches (r_id rq) (r_type rq))
                                      (\<lambda>x. d\<lparr>views := views d + 1\<rparr>) (contents s)\<rparr>,
                     [CallFindOne (r_id rq) (r_type rq), CallSaveContent (r_id rq),
                      CallSaveUser (userId user)])"
        by simp
    }
  next
    fix e
    assume "storeFailure env FindOne = None
              \<and> (findOne (contents s) (r_id rq) (r_type rq) = None
                  \<or> (\<exists>d. findOne (contents s) (r_id rq) (r_type rq) = Some d \<and> needsUpdate d (clock env)))
              \<and> upstreamDetails env rq = Inl e"
    then show "content_handler env s rq =
              (Inl (AppError (''Failed to fetch '' @ r_type rq @ '' details'') 500), s,
               [CallFindOne (r_id rq) (r_type rq), upstreamCall rq])"
      using failing [of e] by blast
  next
    fix e
    assume "storeFailure env FindOne = Some e"
    then show "content_handler env s rq =
              (Inl (AppError (''Failed to fetch '' @ r_type rq @ '' details'') 500), s,
               [CallFindOne (r_id rq) (r_type rq)])"
      by (rule lookup)
  qed
qed

text \<open>
  The theorem at the sample store: after the expiry, before the expiry, and before the
  expiry for a logged-in caller whose watch history cannot be saved.
\<close>

theorem resolve_fetch_failure_witness:
  "r_type (movieRequest None) = ''movie'' \<and> storeFailure (providerDown 2000) FindOne = None
   \<and> findOne (contents sampleState) ''550'' ''movie'' = Some sampleDoc
   \<and> needsUpdate sampleDoc (clock (providerDown 2000))
   \<and> upstreamDetails (providerDown 2000) (movieRequest None)
        = Inl (Error ''TMDB API timeout - please try again later'')
   \<and> content_handler (providerDown 2000) sampleState (movieRequest None)
       = (Inl (AppError ''Failed to fetch movie details'' 500), sampleState,
          [CallFindOne ''550'' ''movie'', CallGetMovieDetails ''550''])
   \<and> \<not> needsUpdate sampleDoc (clock (providerDown 500))
   \<and> fst (content_handler (providerDown 500) sampleState (movieRequest None))
       = Inr (Document (sampleDoc\<lparr>views := 8\<rparr>))
   \<and> r_user (movieRequest (Some sampleUser)) = Some sampleUser
   \<and> storeFailure (historyDown 500) SaveContent = None
   \<and> storeFailure (historyDown 500) SaveUser = Some (Error ''save failed'')
   \<and> fst (content_handler (historyDown 500) sampleState (movieRequest (Some sampleUser)))
       = Inl (AppError ''Failed to fetch movie details'' 500)"
proof -
  have h: "r_type (movieRequest u) = ''movie''" "r_id (movieRequest u) = ''550''"
    "r_user (movieRequest u) = u"
    "storeFailure (providerDown t) op = None" "clock (providerDown t) = t"
    "clock (historyDown t) = t"
    "storeFailure (historyDown t) FindOne = None"
    "storeFailure (historyDown t) SaveContent = None"
    "storeFailure (historyDown t) SaveUser = Some (Error ''save failed'')"
    "findOne (contents sampleState) ''550'' ''movie'' = Some sampleDoc"
    "needsUpdate sampleDoc 2000" "\<not> needsUpdate sampleDoc 500" "views sampleDoc = 7"
    "upstreamDetails (providerDown t) (movieRequest u)
        = Inl (Error ''TMDB API timeout - please try again later'')"
    "upstreamCall (movieRequest u) = CallGetMovieDetails ''550''"
    for t op u
    by (simp_all add: content_eval upstreamDetails_def upstreamCall_def)
  have ty: "r_type (movieRequest u) = ''movie'' \<or> r_type (movieRequest u) = ''tv''" for u
    by (simp add: h)
  from resolve_fetch_failure [where rq = "movieRequest None" and env = "providerDown 2000" and s = sampleState, OF ty] h
  have a: "content_handler (providerDown 2000) sampleState (movieRequest None)
       = (Inl (AppError ''Failed to fetch movie details'' 500), sampleState,
          [CallFindOne ''550'' ''movie'', CallGetMovieDetails ''550''])"
    by simp
  from resolve_fetch_failure [where rq = "movieRequest None" and env = "providerDown 500" and s = sampleState, OF ty] h
  have b: "fst (content_handler (providerDown 500) sampleState (movieRequest None))
       = Inr (Document (sampleDoc\<lparr>views := 8\<rparr>))"
    by simp
  from resolve_fetch_failure [where rq = "movieRequest (Some sampleUser)" and env = "historyDown 500" and s = sampleState, OF ty] h
  have c: "fst (content_handler (historyDown 500) sampleState (movieRequest (Some sampleUser)))
       = Inl (AppError ''Failed to fetch movie details'' 500)"
    by simp
  from h a b c show ?thesis by simp
qed

subsection \<open>A failing watch history (C7)\<close>

text \<open>
  Claim C7 as stated fails. The document is fresh and is resolved, but saving the
  user's watch history fails: the handler answers with status 500.
\<close>

theorem watch_history_counterexample:
  "\<not> needsUpdate sampleDoc (clock (historyDown 500))
   \<and> resolveTmdb (historyDown 500) sampleState ''movie'' ''550''
       = (Inr (Document (sampleDoc\<lparr>views := 8\<rparr>)),
          sampleState\<lparr>contents := [sampleDoc\<lparr>views := 8\<rparr>]\<rparr>,
          [CallFindOne ''550'' ''movie'', CallSaveContent ''550''])
   \<and> fst (content_handler (historyDown 500) sampleState (movieRequest (Some sampleUser)))
       = Inl (AppError ''Failed to fetch movie details'' 500)"
  by (simp add: content_eval)

text \<open>
  Claim C7, amended. For a logged-in caller and a resolved movie or TV item: when
  saving the watch history fails, the request fails with status 500 (the handler awaits
  \<open>addToWatchHistory\<close> inside its \<open>try\<close>); when it succeeds, the resolved content is
  returned and the new entry heads the user's history.
\<close>

theorem watch_history_failure:
  assumes ty: "r_type rq = ''movie'' \<or> r_type rq = ''tv''"
      and user: "r_user rq = Some user"
      and resolved: "resolveTmdb env s (r_type rq) (r_id rq) = (Inr c, s1, calls)"
  shows "(\<forall>e. storeFailure env SaveUser = Some e \<longrightarrow>
            content_handler env s rq =
              (Inl (AppError (''Failed to fetch '' @ r_type rq @ '' details'') 500), s1,
               calls @ [CallSaveUser (userId user)]))
       \<and> (storeFailure env SaveUser = None \<longrightarrow>
            content_handler env s rq =
              (Inr c,
               s1\<lparr>users := (users s1)(userId user \<mapsto> addToWatchHistory user (historyEntry rq c))\<rparr>,
               calls @ [CallSaveUser (userId user)])
            \<and> hd (watchHistory (addToWatchHistory user (historyEntry rq c))) = historyEntry rq c)"
  using ty user resolved
  by (auto simp: content_handler_def fail500_def historyEntry_def addToWatchHistory_def Let_def)

text \<open>
  The theorem at the sample of the counterexample.
\<close>

theorem watch_history_failure_witness:
  "r_type (movieRequest (Some sampleUser)) = ''movie''
   \<and> r_user (movieRequest (Some sampleUser)) = Some sampleUser
   \<and> resolveTmdb (historyDown 500) sampleState ''movie'' ''550''
       = (Inr (Document (sampleDoc\<lparr>views := 8\<rparr>)),
          sampleState\<lparr>contents := [sampleDoc\<lparr>views := 8\<rparr>]\<rparr>,
          [CallFindOne ''550'' ''movie'', CallSaveContent ''550''])
   \<and> storeFailure (historyDown 500) SaveUser = Some (Error ''save failed'')
   \<and> content_handler (historyDown 500) sampleState (movieRequest (Some sampleUser))
       = (Inl (AppError ''Failed to fetch movie details'' 500),
          sampleState\<lparr>contents := [sampleDoc\<lparr>views := 8\<rparr>]\<rparr>,
          [CallFindOne ''550'' ''movie'', CallSaveContent ''550'', CallSaveUser ''u1''])"
proof -
  have h: "r_type (movieRequest (Some sampleUser)) = ''movie''"
    "r_id (movieRequest (Some sampleUser)) = ''550''"
    "r_user (movieRequest (Some sampleUser)) = Some sampleUser"
    "storeFailure (historyDown 500) SaveUser = Some (Error ''save failed'')"
    "userId sampleUser = ''u1''"
    by (simp_all add: content_eval)
  have r: "resolveTmdb (historyDown 500) sampleState ''movie'' ''550''
       = (Inr (Document (sampleDoc\<lparr>views := 8\<rparr>)),
          sampleState\<lparr>contents := [sampleDoc\<lparr>views := 8\<rparr>]\<rparr>,
          [CallFindOne ''550'' ''movie'', CallSaveContent ''550''])"
    by (simp add: content_eval)
  from watch_history_failure [of "movieRequest (Some sampleUser)" sampleUser "historyDown 500" sampleState]
    h r
  have "content_handler (historyDown 500) sampleState (movieRequest (Some sampleUser))
       = (Inl (AppError ''Failed to fetch movie details'' 500),
          sampleState\<lparr>contents := [sampleDoc\<lparr>views := 8\<rparr>]\<rparr>,
          [CallFindOne ''550'' ''movie'', CallSaveContent ''550'', CallSaveUser ''u1''])"
    by simp
  with h r show ?thesis by simp
qed

end
